theory Spec2Isabelle
  imports Main
begin

section \<open>Exercita365: users, exercise locations and the token gate\<close>

text \<open>
  The repository holds two versions of the route file: \<^verbatim>\<open>src/index.js\<close> and the hardened
  one of \<^verbatim>\<open>src/unnamed/part_000\<close> (express-validator, helmet, rate limit), and two copies
  of the middleware \<^verbatim>\<open>middleware/auth.js\<close>. Both versions are embedded; a handler that
  is the same in both up to the name of a response key takes the version as an argument.

  What is outside the repository is a parameter (record \<open>lib\<close> below): the signature
  primitive of jsonwebtoken, bcrypt, the validators and sanitizers of express-validator,
  the geocoding service. The store is the pair of tables, as lists of rows; it is taken
  to be reachable (a failing connection, which every handler turns into status 500, is
  not modelled); its constraints are the foreign key of Locations on Users and the types
  of the columns. A request carries its fields in its JSON body only (the validation
  chains of part_000, built with \<^verbatim>\<open>check\<close>, would also look for them in the query string,
  the headers and the cookies). Path parameters are taken as the integers the documented schema asks for.
\<close>

subsection \<open>JSON values and request bodies\<close>

datatype jval = JNull | JBool bool | JNum int | JStr string

text \<open>
  A parsed JSON object: its keys in insertion order with their values. \<^verbatim>\<open>JSON.parse\<close>
  keeps one value per key, so the keys of a body are distinct. \<open>jget b k\<close> is
  \<^verbatim>\<open>b[k]\<close>, with \<open>None\<close> for \<^verbatim>\<open>undefined\<close>.
\<close>

type_synonym jobject = "(string \<times> jval) list"

definition jget :: "jobject \<Rightarrow> string \<Rightarrow> jval option" where
  "jget b k = map_of b k"

text \<open>An attribute left \<^verbatim>\<open>undefined\<close> in \<^verbatim>\<open>Model.create\<close> is stored as null.\<close>

definition or_null :: "jval option \<Rightarrow> jval" where
  "or_null v = (case v of None \<Rightarrow> JNull | Some x \<Rightarrow> x)"

text \<open>
  \<open>JNum\<close> carries an integer (other numbers are not in this model). \<open>number_text n\<close> is
  \<^verbatim>\<open>String(n)\<close>, the decimal numeral, for an integer that JavaScript holds exactly.
\<close>

definition digit :: "nat \<Rightarrow> char" where
  "digit n = ''0123456789'' ! n"

function decimal :: "nat \<Rightarrow> string" where
  "decimal n = (if n < 10 then [digit n] else decimal (n div 10) @ [digit (n mod 10)])"
  by pat_completeness auto
termination
  by (relation "measure (\<lambda>n. n)") auto

declare decimal.simps [simp del]

definition number_text :: "int \<Rightarrow> string" where
  "number_text n = (if n < 0 then CHR ''-'' # decimal (nat (- n)) else decimal (nat n))"

subsection \<open>Rows, the store and responses\<close>

record user =
  u_id :: nat
  u_name :: string
  u_gender :: string
  u_cpf :: string
  u_address :: string
  u_email :: string
  u_password :: string
  u_birthdate :: string

text \<open>
  \<^verbatim>\<open>Location.init\<close> declares name, description, address (\<^verbatim>\<open>allowNull: false\<close>) and
  coordinates (\<^verbatim>\<open>allowNull: true\<close>); \<^verbatim>\<open>belongsTo(User, { foreignKey: 'userId' })\<close> adds
  \<open>userId\<close>, and the primary key \<open>id\<close> is the ORM's. An instance holds whatever JavaScript
  value was assigned to an attribute, hence \<open>jval\<close>; a row of the table holds text, an
  integer or null. The ORM's timestamps are not kept.
\<close>

record location =
  l_id :: nat
  l_name :: jval
  l_description :: jval
  l_address :: jval
  l_coordinates :: jval
  l_userId :: jval

record db =
  users :: "user list"
  locations :: "location list"
  user_seq :: nat
  location_seq :: nat

text \<open>The payload of a token: \<^verbatim>\<open>{ id, iat, exp? }\<close>, times in seconds.\<close>

record claims =
  c_id :: nat
  c_iat :: nat
  c_exp :: "nat option"

text \<open>
  \<^verbatim>\<open>src/index.js\<close> answers with the keys \<^verbatim>\<open>error\<close> and \<^verbatim>\<open>message\<close>, part_000 with
  \<^verbatim>\<open>erro\<close> and \<^verbatim>\<open>mensagem\<close>; \<^verbatim>\<open>src/middleware/auth.js\<close> uses \<^verbatim>\<open>erro\<close>, its copy in
  part_002 \<^verbatim>\<open>error\<close>.
\<close>

datatype version = Index_js | Part_000

datatype key = K_error | K_erro | K_message | K_mensagem

definition err_key :: "version \<Rightarrow> key" where
  "err_key v = (case v of Index_js \<Rightarrow> K_error | Part_000 \<Rightarrow> K_erro)"

definition msg_key :: "version \<Rightarrow> key" where
  "msg_key v = (case v of Index_js \<Rightarrow> K_message | Part_000 \<Rightarrow> K_mensagem)"

text \<open>The texts the handlers send (the source writes them in Portuguese).\<close>

datatype msg =
    Acesso_negado_nenhum_token_fornecido
  | Token_invalido
  | Usuario_com_o_mesmo_CPF_ou_email_ja_cadastrado
  | Erro_ao_criar_usuario
  | Usuario_nao_encontrado
  | Senha_incorreta
  | Erro_ao_realizar_login
  | Erro_ao_criar_local
  | Erro_ao_listar_locais
  | Local_nao_encontrado
  | Erro_ao_obter_detalhes_do_local
  | Erro_ao_atualizar_local
  | Local_deletado_com_sucesso
  | Erro_ao_deletar_local
  | Endereco_nao_encontrado_no_OpenStreetMap
  | Erro_ao_gerar_link_do_Google_Maps
  | Usuario_nao_pode_ser_deletado_pois_possui_locais_associados
  | Usuario_deletado_com_sucesso
  | Erro_ao_deletar_usuario

text \<open>One entry of \<^verbatim>\<open>errors.array()\<close>: the field and the message.\<close>

type_synonym verror = "string \<times> string"

datatype body =
    Note key msg
  | Errors "verror list"
  | User_token user string
  | Loc location
  | Locs "location list"
  | Maps_link string
  | Express_error

type_synonym response = "nat \<times> body"

subsection \<open>What the libraries supply\<close>

text \<open>
  What a typed column makes of a value that is not of its type: the database refuses it,
  stores NULL, or stores the value it casts it to.
\<close>

datatype 'a cast = Refused | Null | Value 'a

text \<open>
  \<open>jwt_encode\<close> and \<open>jwt_decode\<close> are the signed serialisation of a payload under
  \<^verbatim>\<open>process.env.JWT_SECRET\<close> and its check (\<open>None\<close>: bad signature or malformed);
  \<open>bcrypt_hash\<close> is \<^verbatim>\<open>bcrypt.hash(p, 8)\<close> and \<open>bcrypt_compare\<close> is \<^verbatim>\<open>bcrypt.compare\<close>;
  \<open>isEmail\<close>, \<open>normalizeEmail\<close> and \<open>isISO8601\<close> are express-validator's;
  \<open>trim_escape\<close> is the sanitizer chain \<^verbatim>\<open>.trim().escape()\<close> on a string, and
  \<open>sanitize_other\<close> what the chain leaves in the body for a value that is no string;
  \<open>axios_get\<close> is the search for an address (\<open>None\<close>: the request threw; otherwise the
  list of matches as latitude and longitude);
  \<open>User_accepts\<close> says whether \<^verbatim>\<open>User.create\<close> stores a record: the User model
  (\<^verbatim>\<open>models/user.js\<close>) is not among the sources;
  \<open>text_cast\<close> is what a text column makes of a value that is no string, not null and no
  integer that JavaScript holds exactly, and \<open>integer_cast\<close> what the integer column
  userId makes of a value that is no number (the text \<^verbatim>\<open>'2'\<close> is stored as 2, text that is
  no integer is refused);
  \<open>plain_key\<close> says that a key names nothing on an instance of the ORM's model, and
  \<open>other_member\<close> is what the update route answers, and does to the store, when its body
  has a key that is neither one of the five attributes of a location nor plain.
\<close>

record lib =
  jwt_encode :: "claims \<Rightarrow> string"
  jwt_decode :: "string \<Rightarrow> claims option"
  bcrypt_hash :: "string \<Rightarrow> string"
  bcrypt_compare :: "string \<Rightarrow> string \<Rightarrow> bool"
  isEmail :: "string \<Rightarrow> bool"
  normalizeEmail :: "string \<Rightarrow> string"
  isISO8601 :: "string \<Rightarrow> bool"
  trim_escape :: "string \<Rightarrow> string"
  sanitize_other :: "jval \<Rightarrow> jval"
  axios_get :: "jval \<Rightarrow> (string \<times> string) list option"
  User_accepts :: "user \<Rightarrow> bool"
  text_cast :: "jval \<Rightarrow> string cast"
  integer_cast :: "jval \<Rightarrow> int cast"
  plain_key :: "string \<Rightarrow> bool"
  other_member :: "location \<Rightarrow> jobject \<Rightarrow> db \<Rightarrow> response \<times> db"

subsection \<open>Token service\<close>

text \<open>
  Modelled from the spec: jsonwebtoken is a dependency, not a source file. Section 4.1:
  \<open>issue(userId, expiry?)\<close> binds the identifier, the credential becomes invalid after the
  expiry instant when one is given and never expires on its own otherwise; \<open>verify\<close>
  fails on a bad signature, a malformed payload or a passed expiry. \<open>expiresIn\<close> is in
  seconds from the time of issue (\<^verbatim>\<open>'1h'\<close> is 3600).
\<close>

definition jwt_sign :: "lib \<Rightarrow> nat \<Rightarrow> nat \<Rightarrow> nat option \<Rightarrow> string" where
  "jwt_sign L now uid expiresIn =
     jwt_encode L \<lparr>c_id = uid, c_iat = now,
                   c_exp = (case expiresIn of None \<Rightarrow> None | Some d \<Rightarrow> Some (now + d))\<rparr>"

definition jwt_verify :: "lib \<Rightarrow> nat \<Rightarrow> string \<Rightarrow> claims option" where
  "jwt_verify L now t =
     (case jwt_decode L t of
        None \<Rightarrow> None
      | Some c \<Rightarrow>
          (case c_exp c of
             None \<Rightarrow> Some c
           | Some e \<Rightarrow> if e \<le> now then None else Some c))"

subsection \<open>The middleware \<^verbatim>\<open>auth\<close>\<close>

text \<open>
  \<^verbatim>\<open>String.prototype.replace\<close> with a string pattern: the first occurrence, anywhere in
  the string, is replaced.
\<close>

fun replace :: "string \<Rightarrow> string \<Rightarrow> string \<Rightarrow> string" where
  "replace pat rep [] = (if pat = [] then rep else [])"
| "replace pat rep (c # cs) =
     (if take (length pat) (c # cs) = pat then rep @ drop (length pat) (c # cs)
      else c # replace pat rep cs)"

text \<open>
  The outcome of the middleware: it threw (\<^verbatim>\<open>req.header('Authorization')\<close> is
  \<^verbatim>\<open>undefined\<close> when the header is absent, and \<^verbatim>\<open>undefined.replace\<close> is a TypeError), it
  answered itself, or it set \<^verbatim>\<open>req.user\<close> and called \<^verbatim>\<open>next()\<close>.
\<close>

datatype gate = Threw | Rejected response | Next_with claims

definition auth :: "lib \<Rightarrow> key \<Rightarrow> nat \<Rightarrow> string option \<Rightarrow> gate" where
  "auth L k now authorization =
     (case authorization of
        None \<Rightarrow> Threw
      | Some h \<Rightarrow>
          (let token = replace ''Bearer '' '''' h in
           if token = '''' then Rejected (401, Note k Acesso_negado_nenhum_token_fornecido)
           else (case jwt_verify L now token of
                   Some decoded \<Rightarrow> Next_with decoded
                 | None \<Rightarrow> Rejected (400, Note k Token_invalido))))"

text \<open>
  A route \<^verbatim>\<open>app.METHOD(path, auth, handler)\<close>: the handler runs only after \<^verbatim>\<open>next()\<close>.
  An exception thrown by a middleware goes to Express's default error handler, which
  answers 500; no route handler runs.
\<close>

definition route :: "gate \<Rightarrow> (claims \<Rightarrow> db \<Rightarrow> response \<times> db) \<Rightarrow> db \<Rightarrow> response \<times> db" where
  "route g handler d =
     (case g of
        Threw \<Rightarrow> ((500, Express_error), d)
      | Rejected r \<Rightarrow> (r, d)
      | Next_with u \<Rightarrow> handler u d)"

subsection \<open>Registration: \<^verbatim>\<open>POST /usuario\<close>\<close>

text \<open>
  The body of a registration, with every property of the documented schema present as a
  string.
\<close>

record usuario_body =
  b_name :: string
  b_gender :: string
  b_cpf :: string
  b_address :: string
  b_email :: string
  b_password :: string
  b_birthdate :: string

text \<open>
  The validation chains of part_000, in their order, as \<^verbatim>\<open>validationResult\<close> lists them.
  (\<^verbatim>\<open>toDate()\<close> then turns an accepted birthdate into a date; the row keeps the string.)
  The chain calls \<^verbatim>\<open>isISO8601()\<close> without its strict option, so \<open>isISO8601\<close> also accepts
  text that names no day of the calendar, such as \<^verbatim>\<open>1985-02-30\<close>.
\<close>

definition usuario_checks :: "lib \<Rightarrow> usuario_body \<Rightarrow> verror list" where
  "usuario_checks L b =
     (if b_name b = '''' then [(''name'', ''Name is required.'')] else []) @
     (if b_gender b = ''M'' \<or> b_gender b = ''F'' then []
      else [(''gender'', ''Gender must be either M or F.'')]) @
     (if 11 \<le> length (b_cpf b) \<and> length (b_cpf b) \<le> 11 then []
      else [(''cpf'', ''CPF must be 11 characters long.'')]) @
     (if b_address b = '''' then [(''address'', ''Address is required.'')] else []) @
     (if isEmail L (b_email b) then [] else [(''email'', ''Email is invalid.'')]) @
     (if 6 \<le> length (b_password b) then []
      else [(''password'', ''Password must be at least 6 characters long.'')]) @
     (if isISO8601 L (b_birthdate b) then [] else [(''birthdate'', ''Birthdate is invalid.'')])"

text \<open>
  The \<^verbatim>\<open>try\<close> block, the same in both versions: the combined lookup by cpf or email, the
  hash, \<^verbatim>\<open>User.create\<close> (the identifier comes from the table's sequence) and a token signed
  without options. \<^verbatim>\<open>User.create\<close> refusing the record is the \<^verbatim>\<open>catch\<close> branch.
\<close>

definition usuario_try :: "version \<Rightarrow> lib \<Rightarrow> nat \<Rightarrow> usuario_body \<Rightarrow> db \<Rightarrow> response \<times> db" where
  "usuario_try v L now b d =
     (case find (\<lambda>u. u_cpf u = b_cpf b \<or> u_email u = b_email b) (users d) of
        Some existingUser \<Rightarrow>
          ((400, Note (err_key v) Usuario_com_o_mesmo_CPF_ou_email_ja_cadastrado), d)
      | None \<Rightarrow>
          (let hashedPassword = bcrypt_hash L (b_password b);
               user = \<lparr>u_id = Suc (user_seq d), u_name = b_name b, u_gender = b_gender b,
                       u_cpf = b_cpf b, u_address = b_address b, u_email = b_email b,
                       u_password = hashedPassword, u_birthdate = b_birthdate b\<rparr>
           in if User_accepts L user
              then ((201, User_token user (jwt_sign L now (u_id user) None)),
                    d\<lparr>users := users d @ [user], user_seq := Suc (user_seq d)\<rparr>)
              else ((500, Note (err_key v) Erro_ao_criar_usuario), d)))"

definition post_usuario_index :: "lib \<Rightarrow> nat \<Rightarrow> usuario_body \<Rightarrow> db \<Rightarrow> response \<times> db" where
  "post_usuario_index L now b d = usuario_try Index_js L now b d"

definition post_usuario_part000 :: "lib \<Rightarrow> nat \<Rightarrow> usuario_body \<Rightarrow> db \<Rightarrow> response \<times> db" where
  "post_usuario_part000 L now b d =
     (let errors = usuario_checks L b
      in if errors \<noteq> [] then ((400, Errors errors), d)
         else usuario_try Part_000 L now b d)"

subsection \<open>Login: \<^verbatim>\<open>POST /login\<close>\<close>

definition post_login_index :: "lib \<Rightarrow> nat \<Rightarrow> string \<Rightarrow> string \<Rightarrow> db \<Rightarrow> response \<times> db" where
  "post_login_index L now email password d =
     (case find (\<lambda>u. u_email u = email) (users d) of
        None \<Rightarrow> ((400, Note K_error Usuario_nao_encontrado), d)
      | Some user \<Rightarrow>
          if \<not> bcrypt_compare L password (u_password user)
          then ((400, Note K_error Senha_incorreta), d)
          else ((200, User_token user (jwt_sign L now (u_id user) None)), d))"

text \<open>
  part_000 validates first (\<^verbatim>\<open>isEmail\<close>, \<^verbatim>\<open>isLength({ min: 8 })\<close>, default message), reads
  the email as \<^verbatim>\<open>normalizeEmail\<close> left it in the body, and signs with
  \<^verbatim>\<open>{ expiresIn: '1h' }\<close>.
\<close>

definition login_checks :: "lib \<Rightarrow> string \<Rightarrow> string \<Rightarrow> verror list" where
  "login_checks L email password =
     (if isEmail L email then [] else [(''email'', ''Invalid value'')]) @
     (if 8 \<le> length password then [] else [(''password'', ''Invalid value'')])"

definition post_login_part000 :: "lib \<Rightarrow> nat \<Rightarrow> string \<Rightarrow> string \<Rightarrow> db \<Rightarrow> response \<times> db" where
  "post_login_part000 L now email0 password d =
     (let errors = login_checks L email0 password;
          email = normalizeEmail L email0
      in if errors \<noteq> [] then ((400, Errors errors), d)
         else (case find (\<lambda>u. u_email u = email) (users d) of
                 None \<Rightarrow> ((400, Note K_erro Usuario_nao_encontrado), d)
               | Some user \<Rightarrow>
                   if \<not> bcrypt_compare L password (u_password user)
                   then ((400, Note K_erro Senha_incorreta), d)
                   else ((200, User_token user (jwt_sign L now (u_id user) (Some 3600))), d)))"

subsection \<open>Locations\<close>

text \<open>
  The columns of the Locations table. name, description, address and coordinates are
  \<^verbatim>\<open>DataTypes.STRING\<close> columns: a string is kept as it is, null as NULL, a number as its
  text (5 as \<^verbatim>\<open>'5'\<close>); what happens to another value is the driver's (\<open>text_cast\<close>).
  userId is the integer foreign key on Users that \<^verbatim>\<open>belongsTo\<close> adds: a number is kept,
  every other value goes through \<open>integer_cast\<close>. \<open>None\<close>: the database refuses the value
  and the query throws. A row of the store holds its values in these forms.
\<close>

definition of_cast :: "('a \<Rightarrow> jval) \<Rightarrow> 'a cast \<Rightarrow> jval option" where
  "of_cast f c = (case c of Refused \<Rightarrow> None | Null \<Rightarrow> Some JNull | Value y \<Rightarrow> Some (f y))"

definition as_STRING :: "lib \<Rightarrow> jval \<Rightarrow> jval option" where
  "as_STRING L x =
     (case x of
        JStr s \<Rightarrow> Some (JStr s)
      | JNull \<Rightarrow> Some JNull
      | JNum n \<Rightarrow>
          if - 9007199254740991 \<le> n \<and> n \<le> 9007199254740991 then Some (JStr (number_text n))
          else of_cast JStr (text_cast L x)
      | JBool b \<Rightarrow> of_cast JStr (text_cast L x))"

definition as_INTEGER :: "lib \<Rightarrow> jval \<Rightarrow> jval option" where
  "as_INTEGER L x = (case x of JNum n \<Rightarrow> Some (JNum n) | _ \<Rightarrow> of_cast JNum (integer_cast L x))"

definition column :: "lib \<Rightarrow> string \<Rightarrow> jval \<Rightarrow> jval option" where
  "column L k x = (if k = ''userId'' then as_INTEGER L x else as_STRING L x)"

text \<open>The foreign key: an owner that is not null is the identifier of a row of Users.\<close>

definition references_user :: "db \<Rightarrow> jval \<Rightarrow> bool" where
  "references_user d x = (case x of JNum n \<Rightarrow> n \<in> int ` u_id ` set (users d) | _ \<Rightarrow> True)"

text \<open>The \<^verbatim>\<open>allowNull: false\<close> attributes: \<^verbatim>\<open>create\<close> throws when one is null or absent.\<close>

definition notNull :: "location \<Rightarrow> bool" where
  "notNull l = (l_name l \<noteq> JNull \<and> l_description l \<noteq> JNull \<and> l_address l \<noteq> JNull)"

text \<open>\<^verbatim>\<open>where: { id: local_id, userId: req.user.id }\<close>\<close>

definition owned :: "claims \<Rightarrow> nat \<Rightarrow> location \<Rightarrow> bool" where
  "owned u local_id l = (l_id l = local_id \<and> l_userId l = JNum (int (c_id u)))"

definition save :: "location \<Rightarrow> location list \<Rightarrow> location list" where
  "save l ls = map (\<lambda>x. if l_id x = l_id l then l else x) ls"

definition destroy :: "location \<Rightarrow> location list \<Rightarrow> location list" where
  "destroy l ls = filter (\<lambda>x. l_id x \<noteq> l_id l) ls"

text \<open>
  The five attributes of a location that a request can set, and the assignment
  \<^verbatim>\<open>location[key] = value\<close>: on an attribute it sets the field; on a plain key, the only
  other kind of key for which the update route below comes to it, it changes none of
  them.
\<close>

definition attribute :: "string \<Rightarrow> bool" where
  "attribute k =
     (k = ''name'' \<or> k = ''description'' \<or> k = ''address'' \<or> k = ''coordinates'' \<or>
      k = ''userId'')"

fun assign :: "location \<Rightarrow> string \<times> jval \<Rightarrow> location" where
  "assign l (k, v) =
     (if k = ''name'' then l\<lparr>l_name := v\<rparr>
      else if k = ''description'' then l\<lparr>l_description := v\<rparr>
      else if k = ''address'' then l\<lparr>l_address := v\<rparr>
      else if k = ''coordinates'' then l\<lparr>l_coordinates := v\<rparr>
      else if k = ''userId'' then l\<lparr>l_userId := v\<rparr>
      else l)"

text \<open>
  What a query writes: each attribute it sets, in the form its column gives the value;
  \<open>None\<close> as soon as a value is refused.
\<close>

fun set_column :: "lib \<Rightarrow> location option \<Rightarrow> string \<times> jval \<Rightarrow> location option" where
  "set_column L None kx = None"
| "set_column L (Some r) (k, x) =
     (if attribute k
      then (case column L k x of None \<Rightarrow> None | Some y \<Rightarrow> Some (assign r (k, y)))
      else Some r)"

text \<open>
  \<^verbatim>\<open>Location.create(values)\<close>: the model's validation, then the insertion, which the
  database refuses when a value does not fit its column or the owner is no row of Users.
  The identifier comes from the table's sequence and the instance is the row the
  database returns.
\<close>

definition Location_create :: "version \<Rightarrow> lib \<Rightarrow> location \<Rightarrow> db \<Rightarrow> response \<times> db" where
  "Location_create v L values d =
     (if \<not> notNull values then ((500, Note (err_key v) Erro_ao_criar_local), d)
      else (case foldl (set_column L) (Some (values\<lparr>l_id := Suc (location_seq d)\<rparr>))
                   [(''name'', l_name values), (''description'', l_description values),
                    (''address'', l_address values), (''coordinates'', l_coordinates values)] of
              None \<Rightarrow> ((500, Note (err_key v) Erro_ao_criar_local), d)
            | Some location \<Rightarrow>
                if references_user d (l_userId location)
                then ((201, Loc location),
                      d\<lparr>locations := locations d @ [location],
                        location_seq := Suc (location_seq d)\<rparr>)
                else ((500, Note (err_key v) Erro_ao_criar_local), d)))"

text \<open>\<^verbatim>\<open>src/index.js\<close>: name, description, address and coordinates are read from the body.\<close>

definition post_local_index :: "lib \<Rightarrow> claims \<Rightarrow> jobject \<Rightarrow> db \<Rightarrow> response \<times> db" where
  "post_local_index L u b d =
     Location_create Index_js L
       \<lparr>l_id = 0, l_name = or_null (jget b ''name''),
        l_description = or_null (jget b ''description''),
        l_address = or_null (jget b ''address''),
        l_coordinates = or_null (jget b ''coordinates''),
        l_userId = JNum (int (c_id u))\<rparr> d"

text \<open>
  part_000: \<^verbatim>\<open>isString().isLength({ min: 1 })\<close> on name and description, \<^verbatim>\<open>isString()\<close> on
  address. Each validator of a chain that fails adds its own entry (there is no
  \<^verbatim>\<open>bail\<close>): \<^verbatim>\<open>isString\<close> fails on every value that is no string, and \<^verbatim>\<open>isLength\<close>, which
  looks at the value as text, fails when that text is empty: for an absent property, for
  null and for the empty string.
\<close>

definition is_string :: "jval option \<Rightarrow> bool" where
  "is_string x = (case x of Some (JStr s) \<Rightarrow> True | _ \<Rightarrow> False)"

definition blank :: "jval option \<Rightarrow> bool" where
  "blank x = (x = None \<or> x = Some JNull \<or> x = Some (JStr ''''))"

definition text_check :: "bool \<Rightarrow> string \<Rightarrow> jobject \<Rightarrow> verror list" where
  "text_check min1 f b =
     (if is_string (jget b f) then [] else [(f, ''Invalid value'')]) @
     (if min1 \<and> blank (jget b f) then [(f, ''Invalid value'')] else [])"

definition local_checks :: "jobject \<Rightarrow> verror list" where
  "local_checks b =
     text_check True ''name'' b @ text_check True ''description'' b @
     text_check False ''address'' b"

text \<open>
  The sanitizers \<^verbatim>\<open>.trim().escape()\<close> rewrite name, description and address in the
  body: a string becomes its trimmed and escaped form, what another value becomes is
  the library's (\<open>sanitize_other\<close>). \<^verbatim>\<open>optional()\<close>, on the update route, leaves an absent
  property absent.
\<close>

definition sanitize :: "lib \<Rightarrow> jval \<Rightarrow> jval" where
  "sanitize L x = (case x of JStr s \<Rightarrow> JStr (trim_escape L s) | _ \<Rightarrow> sanitize_other L x)"

definition sanitized :: "lib \<Rightarrow> jobject \<Rightarrow> jobject" where
  "sanitized L b =
     map (\<lambda>(k, v). if k = ''name'' \<or> k = ''description'' \<or> k = ''address''
                    then (k, sanitize L v) else (k, v)) b"

definition post_local_part000 :: "lib \<Rightarrow> claims \<Rightarrow> jobject \<Rightarrow> db \<Rightarrow> response \<times> db" where
  "post_local_part000 L u b0 d =
     (let errors = local_checks b0;
          b = sanitized L b0
      in if errors \<noteq> [] then ((400, Errors errors), d)
         else Location_create Part_000 L
                \<lparr>l_id = 0, l_name = or_null (jget b ''name''),
                 l_description = or_null (jget b ''description''),
                 l_address = or_null (jget b ''address''),
                 l_coordinates = JNull,
                 l_userId = JNum (int (c_id u))\<rparr> d)"

definition get_local :: "claims \<Rightarrow> db \<Rightarrow> response \<times> db" where
  "get_local u d =
     ((200, Locs (filter (\<lambda>l. l_userId l = JNum (int (c_id u))) (locations d))), d)"

definition get_local_id :: "version \<Rightarrow> claims \<Rightarrow> nat \<Rightarrow> db \<Rightarrow> response \<times> db" where
  "get_local_id v u local_id d =
     (case find (owned u local_id) (locations d) of
        None \<Rightarrow> ((404, Note (err_key v) Local_nao_encontrado), d)
      | Some location \<Rightarrow> ((200, Loc location), d))"

text \<open>
  The update route. In part_000 the validation chains run first, so the body the handler
  reads is the sanitized one; \<^verbatim>\<open>validationResult\<close> is not consulted on this route.
\<close>

definition req_body :: "version \<Rightarrow> lib \<Rightarrow> jobject \<Rightarrow> jobject" where
  "req_body v L b = (case v of Index_js \<Rightarrow> b | Part_000 \<Rightarrow> sanitized L b)"

text \<open>
  \<^verbatim>\<open>save\<close> validates the attributes that changed: null on name, description or address
  is refused by \<^verbatim>\<open>allowNull: false\<close>.
\<close>

definition null_refused :: "jobject \<Rightarrow> bool" where
  "null_refused updates =
     list_ex (\<lambda>(k, x). (k = ''name'' \<or> k = ''description'' \<or> k = ''address'') \<and> x = JNull)
       updates"

text \<open>
  \<^verbatim>\<open>Object.keys(updates).forEach(update => location[update] = updates[update])\<close>, then
  \<^verbatim>\<open>location.save()\<close> and \<^verbatim>\<open>res.send(location)\<close>: one assignment per key of the body,
  whatever the key.

  A key that is none of the five attributes either names nothing on the instance
  (\<open>plain_key\<close>): it becomes a plain property, which \<^verbatim>\<open>save\<close> and the response ignore; or
  it names the primary key, a timestamp or a member of the instance (assigning \<^verbatim>\<open>save\<close>
  makes \<^verbatim>\<open>location.save()\<close> throw, and the route answers 500): what the route does then is
  the ORM's, \<open>other_member\<close>.

  Otherwise the instance takes the values as they are sent, and the row takes them in
  the form of its columns. The update is refused, and the route answers 500, when the
  validation fails, when a column refuses its value, or when the new owner is no row of
  Users. The response is the instance.
\<close>

definition put_local_id :: "version \<Rightarrow> lib \<Rightarrow> claims \<Rightarrow> nat \<Rightarrow> jobject \<Rightarrow> db \<Rightarrow> response \<times> db" where
  "put_local_id v L u local_id b d =
     (let updates = req_body v L b
      in case find (owned u local_id) (locations d) of
           None \<Rightarrow> ((404, Note (err_key v) Local_nao_encontrado), d)
         | Some location0 \<Rightarrow>
             if \<not> list_all (\<lambda>k. attribute k \<or> plain_key L k) (map fst updates)
             then other_member L location0 updates d
             else
               (let location = foldl assign location0 updates
                in if null_refused updates
                   then ((500, Note (err_key v) Erro_ao_atualizar_local), d)
                   else (case foldl (set_column L) (Some location0) updates of
                           None \<Rightarrow> ((500, Note (err_key v) Erro_ao_atualizar_local), d)
                         | Some row \<Rightarrow>
                             if (if ''userId'' \<in> set (map fst updates)
                                 then references_user d (l_userId row) else True)
                             then ((200, Loc location),
                                   d\<lparr>locations := save row (locations d)\<rparr>)
                             else ((500, Note (err_key v) Erro_ao_atualizar_local), d))))"

definition delete_local_id :: "version \<Rightarrow> claims \<Rightarrow> nat \<Rightarrow> db \<Rightarrow> response \<times> db" where
  "delete_local_id v u local_id d =
     (case find (owned u local_id) (locations d) of
        None \<Rightarrow> ((404, Note (err_key v) Local_nao_encontrado), d)
      | Some location \<Rightarrow>
          ((200, Note (msg_key v) Local_deletado_com_sucesso),
           d\<lparr>locations := destroy location (locations d)\<rparr>))"

definition get_local_id_maps :: "version \<Rightarrow> lib \<Rightarrow> claims \<Rightarrow> nat \<Rightarrow> db \<Rightarrow> response \<times> db" where
  "get_local_id_maps v L u local_id d =
     (case find (owned u local_id) (locations d) of
        None \<Rightarrow> ((404, Note (err_key v) Local_nao_encontrado), d)
      | Some location \<Rightarrow>
          (case axios_get L (l_address location) of
             None \<Rightarrow> ((500, Note (err_key v) Erro_ao_gerar_link_do_Google_Maps), d)
           | Some [] \<Rightarrow> ((404, Note (err_key v) Endereco_nao_encontrado_no_OpenStreetMap), d)
           | Some ((lat, lon) # rest) \<Rightarrow>
               ((200, Maps_link (''https://www.google.com/maps/search/?api=1&query=''
                                  @ lat @ '','' @ lon)), d)))"

subsection \<open>User deletion: \<^verbatim>\<open>DELETE /usuario/:id\<close>\<close>

text \<open>The handler reads \<^verbatim>\<open>req.params.id\<close> (here \<open>id0\<close>) only; \<^verbatim>\<open>req.user\<close> is not looked at.\<close>

definition delete_usuario_id :: "version \<Rightarrow> claims \<Rightarrow> nat \<Rightarrow> db \<Rightarrow> response \<times> db" where
  "delete_usuario_id v u id0 d =
     (case find (\<lambda>x. u_id x = id0) (users d) of
        None \<Rightarrow> ((404, Note (err_key v) Usuario_nao_encontrado), d)
      | Some user \<Rightarrow>
          (let locs = filter (\<lambda>l. l_userId l = JNum (int id0)) (locations d)
           in if 0 < length locs
              then ((400, Note (err_key v)
                            Usuario_nao_pode_ser_deletado_pois_possui_locais_associados), d)
              else ((200, Note (msg_key v) Usuario_deletado_com_sucesso),
                    d\<lparr>users := filter (\<lambda>x. u_id x \<noteq> u_id user) (users d)\<rparr>)))"

subsection \<open>The merged record, in the words of the specification\<close>

text \<open>
  The update is specified field by field: a field takes the value the body gives for its
  key where the body has the key, and keeps the stored value otherwise. \<open>as_read\<close> is
  the value the handler sees for a key: the value sent, after the sanitizers of part_000
  on name, description and address.
\<close>

definition as_read :: "version \<Rightarrow> lib \<Rightarrow> string \<Rightarrow> jval \<Rightarrow> jval" where
  "as_read v L k x =
     (case v of
        Index_js \<Rightarrow> x
      | Part_000 \<Rightarrow>
          if k = ''name'' \<or> k = ''description'' \<or> k = ''address'' then sanitize L x else x)"

definition merged :: "version \<Rightarrow> lib \<Rightarrow> jobject \<Rightarrow> string \<Rightarrow> jval \<Rightarrow> jval" where
  "merged v L b k old = (case jget b k of None \<Rightarrow> old | Some x \<Rightarrow> as_read v L k x)"

definition merged_record :: "version \<Rightarrow> lib \<Rightarrow> jobject \<Rightarrow> location \<Rightarrow> location" where
  "merged_record v L b l =
     \<lparr>l_id = l_id l,
      l_name = merged v L b ''name'' (l_name l),
      l_description = merged v L b ''description'' (l_description l),
      l_address = merged v L b ''address'' (l_address l),
      l_coordinates = merged v L b ''coordinates'' (l_coordinates l),
      l_userId = l_userId l\<rparr>"

text \<open>A body of text: every value is a string.\<close>

definition all_text :: "jobject \<Rightarrow> bool" where
  "all_text b = list_all (\<lambda>(k, x). is_string (Some x)) b"

subsection \<open>Sample data\<close>

text \<open>
  A small instance of the library parameters and of the store, on which the handlers are
  run below. The sample token service knows two tokens, both of user 1 and issued at
  time 100: one without expiry and one that expires at 3700. The sample hash prefixes a
  character. The sample sanitizer leaves a string as it is and turns null into the empty
  string; the sample columns store a boolean as its text and the text \<^verbatim>\<open>'2'\<close> as the
  integer 2; a few members of an instance are known, and a body that assigns one is
  answered 500.
\<close>

definition sample_lib :: lib where
  "sample_lib =
     \<lparr>jwt_encode = (\<lambda>c. if c_exp c = None then ''forever'' else ''hour''),
      jwt_decode = (\<lambda>s. if s = ''forever'' then Some \<lparr>c_id = 1, c_iat = 100, c_exp = None\<rparr>
                         else if s = ''hour'' then Some \<lparr>c_id = 1, c_iat = 100, c_exp = Some 3700\<rparr>
                         else None),
      bcrypt_hash = (\<lambda>p. CHR ''#'' # p),
      bcrypt_compare = (\<lambda>p h. h = CHR ''#'' # p),
      isEmail = (\<lambda>e. CHR ''@'' \<in> set e),
      normalizeEmail = (\<lambda>e. e),
      isISO8601 = (\<lambda>s. length s = 10),
      trim_escape = (\<lambda>s. s),
      sanitize_other = (\<lambda>x. if x = JNull then JStr '''' else x),
      axios_get = (\<lambda>a. Some [(''-23.587416'', ''-46.657634'')]),
      User_accepts = (\<lambda>u. True),
      text_cast = (\<lambda>x. case x of JBool b \<Rightarrow> Value (if b then ''true'' else ''false'')
                                 | _ \<Rightarrow> Refused),
      integer_cast = (\<lambda>x. if x = JNull then Null else if x = JStr ''2'' then Value 2
                           else Refused),
      plain_key = (\<lambda>k. k \<notin> set [''id'', ''createdAt'', ''updatedAt'', ''save'', ''destroy'',
                                  ''isNewRecord'', ''dataValues'']),
      other_member = (\<lambda>l b d. ((500, Note K_error Erro_ao_atualizar_local), d))\<rparr>"

definition maria :: user where
  "maria = \<lparr>u_id = 1, u_name = ''Maria Oliveira'', u_gender = ''F'', u_cpf = ''98765432150'',
            u_address = ''Avenida Brasil, 500'', u_email = ''maria@example.com'',
            u_password = ''#senha123'', u_birthdate = ''1985-07-15''\<rparr>"

definition joao :: user where
  "joao = \<lparr>u_id = 2, u_name = ''Joao Souza'', u_gender = ''M'', u_cpf = ''12345678901'',
           u_address = ''Rua das Flores, 12'', u_email = ''joao@example.com'',
           u_password = ''#segredo99'', u_birthdate = ''1990-01-01''\<rparr>"

definition ana :: user where
  "ana = \<lparr>u_id = 3, u_name = ''Ana Lima'', u_gender = ''F'', u_cpf = ''11122233344'',
          u_address = ''Rua Exemplo, 456'', u_email = ''ana@example.com'',
          u_password = ''#abc12345'', u_birthdate = ''1979-12-31''\<rparr>"

definition park :: location where
  "park = \<lparr>l_id = 1, l_name = JStr ''Central Park'',
           l_description = JStr ''A large public park in New York City.'',
           l_address = JStr ''New York, NY 10024'',
           l_coordinates = JStr ''40.785091,-73.968285'', l_userId = JNum 1\<rparr>"

definition gym :: location where
  "gym = \<lparr>l_id = 2, l_name = JStr ''Academia XYZ'',
          l_description = JStr ''Academia com diversas modalidades de treino'',
          l_address = JStr ''Rua Exemplo, 456'',
          l_coordinates = JNull, l_userId = JNum 2\<rparr>"

definition sample_db :: db where
  "sample_db = \<lparr>users = [maria, joao, ana], locations = [park, gym],
                user_seq = 3, location_seq = 2\<rparr>"

definition empty_db :: db where
  "empty_db = \<lparr>users = [], locations = [], user_seq = 0, location_seq = 0\<rparr>"

text \<open>The callers: the payloads of tokens of users 1 and 2.\<close>

definition caller1 :: claims where
  "caller1 = \<lparr>c_id = 1, c_iat = 100, c_exp = None\<rparr>"

definition caller2 :: claims where
  "caller2 = \<lparr>c_id = 2, c_iat = 100, c_exp = None\<rparr>"

text \<open>
  A registration whose password has six characters, one whose password has three, and
  one that breaks the rules on name, gender, cpf, address, email and password.
\<close>

definition maria_body :: usuario_body where
  "maria_body = \<lparr>b_name = ''Maria Oliveira'', b_gender = ''F'', b_cpf = ''98765432150'',
                 b_address = ''Avenida Brasil, 500'', b_email = ''maria@example.com'',
                 b_password = ''abc123'', b_birthdate = ''1985-07-15''\<rparr>"

definition weak_body :: usuario_body where
  "weak_body = \<lparr>b_name = ''Maria Oliveira'', b_gender = ''F'', b_cpf = ''98765432150'',
                b_address = ''Avenida Brasil, 500'', b_email = ''maria@example.com'',
                b_password = ''abc'', b_birthdate = ''1985-07-15''\<rparr>"

definition bad_body :: usuario_body where
  "bad_body = \<lparr>b_name = '''', b_gender = ''X'', b_cpf = ''123'',
               b_address = '''', b_email = ''nobody'',
               b_password = ''1'', b_birthdate = ''1985-07-15''\<rparr>"

text \<open>The body of a new location, with coordinates, as text and as a number.\<close>

definition park_body :: jobject where
  "park_body = [(''name'', JStr ''Park''), (''description'', JStr ''desc''),
                (''address'', JStr ''Central Park, NY''), (''coordinates'', JStr ''0,0'')]"

definition five_body :: jobject where
  "five_body = [(''name'', JStr ''Park''), (''description'', JStr ''desc''),
                (''address'', JStr ''Central Park, NY''), (''coordinates'', JNum 5)]"

section \<open>Properties\<close>

subsection \<open>Lookups\<close>

lemma find_none_iff: "(find P xs = None) = (\<forall>x\<in>set xs. \<not> P x)"
  by (induction xs) auto

lemma find_some_in: "find P xs = Some x \<Longrightarrow> x \<in> set xs \<and> P x"
  by (induction xs) (auto split: if_splits)

subsection \<open>The gate\<close>

text \<open>
  The middleware on a request that carries an Authorization header: 401 when nothing is
  left after removing \<^verbatim>\<open>'Bearer '\<close>, 400 when verification fails, and \<^verbatim>\<open>req.user\<close> set to
  the verified payload otherwise. A rejected request reaches no handler.
\<close>

lemma auth_with_header:
  "auth L k now (Some h) =
     (if replace ''Bearer '' '''' h = ''''
      then Rejected (401, Note k Acesso_negado_nenhum_token_fornecido)
      else case jwt_verify L now (replace ''Bearer '' '''' h) of
             Some decoded \<Rightarrow> Next_with decoded
           | None \<Rightarrow> Rejected (400, Note k Token_invalido))"
  by (simp add: auth_def Let_def)

lemma route_rejected: "route (Rejected r) handler d = (r, d)"
  by (simp add: route_def)

lemma route_next: "route (Next_with u) handler d = handler u d"
  by (simp add: route_def)

text \<open>
  C3. The gate is meant to answer 401 when no credential is supplied. On a request
  with no Authorization header at all the middleware does not answer 401: it calls
  \<^verbatim>\<open>replace\<close> on \<^verbatim>\<open>undefined\<close> and throws, and the request ends in the default error
  handler with status 500. No handler runs in that case either.
\<close>

theorem auth_absent_header_throws:
  "auth L k now None = Threw \<and>
   route (auth L k now None) handler d = ((500, Express_error), d)"
  by (simp add: auth_def route_def)

subsection \<open>Ownership isolation\<close>

text \<open>
  C2. When no location with the given identifier is owned by the caller, the get,
  update, delete and map-link handlers all answer 404 with the same body and leave the
  store as it is. The hypothesis covers both an identifier that no location has and an
  identifier of a location with another owner, and the answer does not depend on which.
\<close>

theorem not_owned_not_found:
  assumes "\<forall>l\<in>set (locations d). l_id l = local_id \<longrightarrow> l_userId l \<noteq> JNum (int (c_id u))"
  shows "get_local_id v u local_id d = ((404, Note (err_key v) Local_nao_encontrado), d) \<and>
         put_local_id v L u local_id b d = ((404, Note (err_key v) Local_nao_encontrado), d) \<and>
         delete_local_id v u local_id d = ((404, Note (err_key v) Local_nao_encontrado), d) \<and>
         get_local_id_maps v L u local_id d =
           ((404, Note (err_key v) Local_nao_encontrado), d)"
proof -
  from assms have "\<forall>l\<in>set (locations d). \<not> owned u local_id l"
    by (simp add: owned_def)
  then have "find (owned u local_id) (locations d) = None"
    by (simp add: find_none_iff)
  then show ?thesis
    by (simp add: get_local_id_def put_local_id_def delete_local_id_def
        get_local_id_maps_def)
qed

text \<open>
  Caller 1 on identifier 99, which no location has, and on identifier 2, the location of
  user 2: the four answers are the same.
\<close>

theorem not_owned_not_found_witness:
  "l_id gym = 2 \<and> l_userId gym = JNum 2 \<and> gym \<in> set (locations sample_db) \<and>
   99 \<notin> l_id ` set (locations sample_db) \<and>
   get_local_id Part_000 caller1 99 sample_db =
     ((404, Note K_erro Local_nao_encontrado), sample_db) \<and>
   get_local_id Part_000 caller1 2 sample_db =
     ((404, Note K_erro Local_nao_encontrado), sample_db) \<and>
   put_local_id Part_000 sample_lib caller1 99 [(''name'', JStr ''Mine'')] sample_db =
     ((404, Note K_erro Local_nao_encontrado), sample_db) \<and>
   put_local_id Part_000 sample_lib caller1 2 [(''name'', JStr ''Mine'')] sample_db =
     ((404, Note K_erro Local_nao_encontrado), sample_db) \<and>
   delete_local_id Part_000 caller1 99 sample_db =
     ((404, Note K_erro Local_nao_encontrado), sample_db) \<and>
   delete_local_id Part_000 caller1 2 sample_db =
     ((404, Note K_erro Local_nao_encontrado), sample_db) \<and>
   get_local_id_maps Part_000 sample_lib caller1 99 sample_db =
     ((404, Note K_erro Local_nao_encontrado), sample_db) \<and>
   get_local_id_maps Part_000 sample_lib caller1 2 sample_db =
     ((404, Note K_erro Local_nao_encontrado), sample_db)"
proof -
  have absent: "\<forall>l\<in>set (locations sample_db). l_id l = 99 \<longrightarrow> l_userId l \<noteq> JNum (int (c_id caller1))"
    by (simp add: sample_db_def park_def gym_def)
  have other: "\<forall>l\<in>set (locations sample_db). l_id l = 2 \<longrightarrow> l_userId l \<noteq> JNum (int (c_id caller1))"
    by (simp add: sample_db_def park_def gym_def caller1_def)
  have data: "l_id gym = 2 \<and> l_userId gym = JNum 2 \<and> gym \<in> set (locations sample_db) \<and>
      99 \<notin> l_id ` set (locations sample_db)"
    by (simp add: sample_db_def park_def gym_def)
  show ?thesis
    using data
      not_owned_not_found [OF absent, of Part_000 sample_lib "[(''name'', JStr ''Mine'')]"]
      not_owned_not_found [OF other, of Part_000 sample_lib "[(''name'', JStr ''Mine'')]"]
    by (simp add: err_key_def)
qed

subsection \<open>The owner of a location\<close>

text \<open>
  C1. The owner of a location is meant to be fixed at creation. The update route
  copies every key of the body onto the record, \<open>userId\<close> included: user 1 sends
  \<^verbatim>\<open>{ "userId": 2 }\<close> for the location it owns, the row is saved with owner 2, and from
  then on user 2 reads it and user 1 gets 404. This holds in both versions of the route.
\<close>

theorem put_local_id_reassigns_owner:
  "put_local_id v L caller1 1 [(''userId'', JNum 2)] sample_db =
     ((200, Loc (park\<lparr>l_userId := JNum 2\<rparr>)),
      sample_db\<lparr>locations := [park\<lparr>l_userId := JNum 2\<rparr>, gym]\<rparr>) \<and>
   l_userId park = JNum 1 \<and>
   get_local_id v caller2 1 (sample_db\<lparr>locations := [park\<lparr>l_userId := JNum 2\<rparr>, gym]\<rparr>) =
     ((200, Loc (park\<lparr>l_userId := JNum 2\<rparr>)),
      sample_db\<lparr>locations := [park\<lparr>l_userId := JNum 2\<rparr>, gym]\<rparr>) \<and>
   get_local_id v caller1 1 (sample_db\<lparr>locations := [park\<lparr>l_userId := JNum 2\<rparr>, gym]\<rparr>) =
     ((404, Note (err_key v) Local_nao_encontrado),
      sample_db\<lparr>locations := [park\<lparr>l_userId := JNum 2\<rparr>, gym]\<rparr>)"
  by (cases v)
    (simp_all add: put_local_id_def get_local_id_def req_body_def sanitized_def owned_def
      attribute_def null_refused_def column_def as_INTEGER_def references_user_def save_def
      sample_db_def park_def gym_def maria_def joao_def ana_def caller1_def caller2_def
      Let_def)

subsection \<open>Deleting a user\<close>

lemma find_first_id:
  "id0 \<in> u_id ` set us \<Longrightarrow> \<exists>x. find (\<lambda>x. u_id x = id0) us = Some x \<and> u_id x = id0"
  by (induction us) auto

lemma filter_nonempty: "(0 < length (filter P xs)) = (\<exists>x\<in>set xs. P x)"
  by (induction xs) auto

text \<open>
  C8. Deleting a user, whoever the authenticated caller \<open>u\<close> is (the handler never
  looks at it): 404 when no user has the identifier; 400 when the user exists and some
  location has it as owner, the store left as it is; otherwise 200, the user's row is
  removed, no user with the identifier is left and a second deletion answers 404.
\<close>

theorem delete_usuario_id_outcomes:
  "(id0 \<notin> u_id ` set (users d) \<longrightarrow>
      delete_usuario_id v u id0 d = ((404, Note (err_key v) Usuario_nao_encontrado), d)) \<and>
   (id0 \<in> u_id ` set (users d) \<and> JNum (int id0) \<in> l_userId ` set (locations d) \<longrightarrow>
      delete_usuario_id v u id0 d =
        ((400, Note (err_key v) Usuario_nao_pode_ser_deletado_pois_possui_locais_associados), d)) \<and>
   (id0 \<in> u_id ` set (users d) \<and> JNum (int id0) \<notin> l_userId ` set (locations d) \<longrightarrow>
      delete_usuario_id v u id0 d =
        ((200, Note (msg_key v) Usuario_deletado_com_sucesso),
         d\<lparr>users := filter (\<lambda>x. u_id x \<noteq> id0) (users d)\<rparr>) \<and>
      id0 \<notin> u_id ` set (users (snd (delete_usuario_id v u id0 d))) \<and>
      find (\<lambda>x. u_id x = id0) (users (snd (delete_usuario_id v u id0 d))) = None \<and>
      delete_usuario_id v u id0 (snd (delete_usuario_id v u id0 d)) =
        ((404, Note (err_key v) Usuario_nao_encontrado), snd (delete_usuario_id v u id0 d)))"
proof -
  have absent: "delete_usuario_id v u id0 d = ((404, Note (err_key v) Usuario_nao_encontrado), d)"
    if "id0 \<notin> u_id ` set (users d)"
  proof -
    from that have "find (\<lambda>x. u_id x = id0) (users d) = None"
      by (auto simp: find_none_iff)
    then show ?thesis
      by (simp add: delete_usuario_id_def)
  qed
  have blocked: "delete_usuario_id v u id0 d =
        ((400, Note (err_key v) Usuario_nao_pode_ser_deletado_pois_possui_locais_associados), d)"
    if a: "id0 \<in> u_id ` set (users d) \<and> JNum (int id0) \<in> l_userId ` set (locations d)"
  proof -
    from a obtain x where x: "find (\<lambda>x. u_id x = id0) (users d) = Some x"
      using find_first_id by blast
    from a have "\<exists>l\<in>set (locations d). l_userId l = JNum (int id0)"
      by auto
    then have "0 < length (filter (\<lambda>l. l_userId l = JNum (int id0)) (locations d))"
      by (simp only: filter_nonempty)
    with x show ?thesis
      by (simp add: delete_usuario_id_def)
  qed
  have removed: "delete_usuario_id v u id0 d =
        ((200, Note (msg_key v) Usuario_deletado_com_sucesso),
         d\<lparr>users := filter (\<lambda>x. u_id x \<noteq> id0) (users d)\<rparr>) \<and>
      id0 \<notin> u_id ` set (users (snd (delete_usuario_id v u id0 d))) \<and>
      find (\<lambda>x. u_id x = id0) (users (snd (delete_usuario_id v u id0 d))) = None \<and>
      delete_usuario_id v u id0 (snd (delete_usuario_id v u id0 d)) =
        ((404, Note (err_key v) Usuario_nao_encontrado), snd (delete_usuario_id v u id0 d))"
    if a: "id0 \<in> u_id ` set (users d) \<and> JNum (int id0) \<notin> l_userId ` set (locations d)"
  proof -
    from a obtain x where x: "find (\<lambda>x. u_id x = id0) (users d) = Some x" and xi: "u_id x = id0"
      using find_first_id by blast
    from a have "\<not> 0 < length (filter (\<lambda>l. l_userId l = JNum (int id0)) (locations d))"
      unfolding filter_nonempty by force
    with x xi have r: "delete_usuario_id v u id0 d =
        ((200, Note (msg_key v) Usuario_deletado_com_sucesso),
         d\<lparr>users := filter (\<lambda>x. u_id x \<noteq> id0) (users d)\<rparr>)"
      by (simp add: delete_usuario_id_def)
    have gone: "find (\<lambda>x. u_id x = id0) (filter (\<lambda>x. u_id x \<noteq> id0) (users d)) = None"
      by (simp add: find_none_iff)
    have again: "delete_usuario_id v u id0 (d\<lparr>users := filter (\<lambda>x. u_id x \<noteq> id0) (users d)\<rparr>) =
      ((404, Note (err_key v) Usuario_nao_encontrado),
       d\<lparr>users := filter (\<lambda>x. u_id x \<noteq> id0) (users d)\<rparr>)"
      using gone by (simp add: delete_usuario_id_def)
    show ?thesis
      by (auto simp: r gone again)
  qed
  from absent blocked removed show ?thesis
    by blast
qed

text \<open>
  Caller 1 deletes an identifier nobody has, user 2 (who owns the gym) and user 3 (who
  owns nothing); the caller is never the target.
\<close>

theorem delete_usuario_id_outcomes_witness:
  "delete_usuario_id Part_000 caller1 7 sample_db =
     ((404, Note K_erro Usuario_nao_encontrado), sample_db) \<and>
   delete_usuario_id Part_000 caller1 2 sample_db =
     ((400, Note K_erro Usuario_nao_pode_ser_deletado_pois_possui_locais_associados), sample_db) \<and>
   delete_usuario_id Part_000 caller1 3 sample_db =
     ((200, Note K_mensagem Usuario_deletado_com_sucesso), sample_db\<lparr>users := [maria, joao]\<rparr>) \<and>
   delete_usuario_id Part_000 caller1 3 (sample_db\<lparr>users := [maria, joao]\<rparr>) =
     ((404, Note K_erro Usuario_nao_encontrado), sample_db\<lparr>users := [maria, joao]\<rparr>)"
proof -
  have h1: "7 \<notin> u_id ` set (users sample_db)"
    by (simp add: sample_db_def maria_def joao_def ana_def)
  have h2: "2 \<in> u_id ` set (users sample_db) \<and> JNum (int 2) \<in> l_userId ` set (locations sample_db)"
    by (simp add: sample_db_def maria_def joao_def ana_def park_def gym_def)
  have h3: "3 \<in> u_id ` set (users sample_db) \<and> JNum (int 3) \<notin> l_userId ` set (locations sample_db)"
    by (simp add: sample_db_def maria_def joao_def ana_def park_def gym_def)
  have f: "filter (\<lambda>x. u_id x \<noteq> 3) (users sample_db) = [maria, joao]"
    by (simp add: sample_db_def maria_def joao_def ana_def)
  show ?thesis
    using h1 h2 h3 f
      delete_usuario_id_outcomes [of 7 sample_db Part_000 caller1]
      delete_usuario_id_outcomes [of 2 sample_db Part_000 caller1]
      delete_usuario_id_outcomes [of 3 sample_db Part_000 caller1]
    by (auto simp add: err_key_def msg_key_def)
qed

subsection \<open>Partial update\<close>

lemma jget_sanitized:
  "jget (sanitized L b) k = map_option (as_read Part_000 L k) (jget b k)"
  by (induction b) (auto simp: sanitized_def jget_def as_read_def)

lemma jget_req_body:
  "jget (req_body v L b) k = map_option (as_read v L k) (jget b k)"
proof (cases v)
  case Index_js
  then show ?thesis
    by (cases "jget b k") (simp_all add: req_body_def as_read_def)
next
  case Part_000
  then show ?thesis
    by (simp add: req_body_def jget_sanitized)
qed

lemma keys_req_body: "map fst (req_body v L b) = map fst b"
  by (cases v) (auto simp: req_body_def sanitized_def)

lemma jget_absent: "k \<notin> fst ` set b \<Longrightarrow> jget b k = None"
  by (simp add: jget_def map_of_eq_None_iff)

lemma jget_Cons: "jget ((k, x) # b) k' = (if k' = k then Some x else jget b k')"
  by (simp add: jget_def)

lemma assign_fields:
  "l_id (assign l (k, x)) = l_id l"
  "l_name (assign l (k, x)) = (if k = ''name'' then x else l_name l)"
  "l_description (assign l (k, x)) = (if k = ''description'' then x else l_description l)"
  "l_address (assign l (k, x)) = (if k = ''address'' then x else l_address l)"
  "l_coordinates (assign l (k, x)) = (if k = ''coordinates'' then x else l_coordinates l)"
  "l_userId (assign l (k, x)) = (if k = ''userId'' then x else l_userId l)"
  by simp_all

lemma foldl_assign_id: "l_id (foldl assign l b) = l_id l"
  by (induction b arbitrary: l) (auto simp: assign_fields simp del: assign.simps)

lemma foldl_assign_field:
  assumes "distinct (map fst b)"
      and "\<And>l k x. f (assign l (k, x)) = (if k = key then x else f l)"
  shows "f (foldl assign l b) = (case jget b key of None \<Rightarrow> f l | Some x \<Rightarrow> x)"
  using assms(1)
proof (induction b arbitrary: l)
  case Nil
  then show ?case by (simp add: jget_def)
next
  case (Cons p b)
  obtain k x where p: "p = (k, x)" by (cases p)
  from Cons.prems p have nk: "jget b k = None" and db: "distinct (map fst b)"
    by (auto simp: jget_absent)
  have "f (foldl assign l (p # b)) = f (foldl assign (assign l (k, x)) b)"
    by (simp add: p del: assign.simps)
  also have "\<dots> = (case jget b key of None \<Rightarrow> f (assign l (k, x)) | Some y \<Rightarrow> y)"
    by (rule Cons.IH [OF db])
  also have "\<dots> = (case jget (p # b) key of None \<Rightarrow> f l | Some y \<Rightarrow> y)"
  proof (cases "k = key")
    case True
    with nk show ?thesis by (simp add: p jget_Cons assms(2) del: assign.simps)
  next
    case False
    then show ?thesis
      by (auto simp add: p jget_Cons assms(2) simp del: assign.simps split: option.splits)
  qed
  finally show ?case .
qed

lemma foldl_assign_fields:
  assumes "distinct (map fst b)"
  shows "foldl assign l b =
     \<lparr>l_id = l_id l,
      l_name = (case jget b ''name'' of None \<Rightarrow> l_name l | Some x \<Rightarrow> x),
      l_description = (case jget b ''description'' of None \<Rightarrow> l_description l | Some x \<Rightarrow> x),
      l_address = (case jget b ''address'' of None \<Rightarrow> l_address l | Some x \<Rightarrow> x),
      l_coordinates = (case jget b ''coordinates'' of None \<Rightarrow> l_coordinates l | Some x \<Rightarrow> x),
      l_userId = (case jget b ''userId'' of None \<Rightarrow> l_userId l | Some x \<Rightarrow> x)\<rparr>"
  by (rule location.equality)
    (simp_all add: foldl_assign_id foldl_assign_field [OF assms] assign_fields
      del: assign.simps)


lemma all_text_iff: "all_text b = (\<forall>p\<in>set b. \<exists>s. snd p = JStr s)"
  by (induction b) (auto simp: all_text_def is_string_def split: jval.splits)

lemma all_text_req_body: "all_text b \<Longrightarrow> all_text (req_body v L b)"
  by (cases v) (auto simp: all_text_iff req_body_def sanitized_def sanitize_def)

lemma all_text_not_null: "all_text b \<Longrightarrow> \<not> null_refused b"
  by (auto simp: all_text_iff null_refused_def list_ex_iff)

lemma set_column_text:
  "all_text b \<Longrightarrow> set (map fst b) \<subseteq> {''name'', ''description'', ''address'', ''coordinates''} \<Longrightarrow>
   foldl (set_column L) (Some r) b = Some (foldl assign r b)"
proof (induction b arbitrary: r)
  case Nil
  then show ?case by simp
next
  case (Cons p b)
  obtain k x where p: "p = (k, x)" by (cases p)
  from Cons.prems p obtain s where x: "x = JStr s"
    by (auto simp: all_text_iff)
  from Cons.prems p have k: "k = ''name'' \<or> k = ''description'' \<or> k = ''address'' \<or> k = ''coordinates''"
    by auto
  then have step: "set_column L (Some r) (k, x) = Some (assign r (k, x))"
    by (auto simp: attribute_def column_def as_STRING_def x simp del: assign.simps)
  from Cons.prems have rest: "all_text b"
      "set (map fst b) \<subseteq> {''name'', ''description'', ''address'', ''coordinates''}"
    by (auto simp: all_text_iff)
  show ?case
    by (simp add: p step Cons.IH [OF rest] del: assign.simps set_column.simps)
qed

lemma data_keys_attributes:
  "set ks \<subseteq> {''name'', ''description'', ''address'', ''coordinates''} \<Longrightarrow>
   list_all (\<lambda>k. attribute k \<or> plain_key L k) ks"
  by (induction ks) (auto simp: attribute_def)

text \<open>
  C4, as stated, fails on \<^verbatim>\<open>src/index.js\<close>: a body that sends null for the name of a
  location the caller owns holds a subset of the fields, and the update is refused by
  the model's \<^verbatim>\<open>allowNull: false\<close>. The route answers 500 and nothing is changed.
\<close>

theorem put_local_id_refuses_null:
  "find (owned caller1 1) (locations sample_db) = Some park \<and>
   l_name park = JStr ''Central Park'' \<and>
   put_local_id Index_js sample_lib caller1 1 [(''name'', JNull)] sample_db =
     ((500, Note K_error Erro_ao_atualizar_local), sample_db)"
  by (simp add: put_local_id_def req_body_def owned_def attribute_def null_refused_def
      err_key_def sample_db_def park_def caller1_def Let_def)

text \<open>
  C4, amended. For a location the caller owns and a body with distinct keys among name,
  description, address and coordinates whose values are all strings, the update answers
  200 with the merged record and stores it in place of the row: every field whose key
  is in the body takes the value read for that key (in part_000 the trimmed and escaped
  string, for name, description and address), and every other field, the owner included,
  is unchanged. Both versions.
\<close>

theorem put_local_id_merges:
  assumes "find (owned u local_id) (locations d) = Some l0"
      and "distinct (map fst b)"
      and "set (map fst b) \<subseteq> {''name'', ''description'', ''address'', ''coordinates''}"
      and "all_text b"
  shows "put_local_id v L u local_id b d =
           ((200, Loc (merged_record v L b l0)),
            d\<lparr>locations := save (merged_record v L b l0) (locations d)\<rparr>) \<and>
         merged_record v L b l0 \<in> set (save (merged_record v L b l0) (locations d))"
proof -
  let ?updates = "req_body v L b"
  have keys: "map fst ?updates = map fst b"
    by (rule keys_req_body)
  have nouser: "''userId'' \<notin> set (map fst ?updates)"
    using assms(3) unfolding keys by auto
  have "jget b ''userId'' = None"
    using assms(3) by (intro jget_absent) auto
  then have m: "foldl assign l0 ?updates = merged_record v L b l0"
    using assms(2)
    by (simp add: foldl_assign_fields keys jget_req_body merged_record_def merged_def
        split: option.splits)
  have tx: "all_text ?updates"
    using assms(4) by (rule all_text_req_body)
  have row: "foldl (set_column L) (Some l0) ?updates = Some (merged_record v L b l0)"
    using set_column_text [OF tx, of L l0] assms(3) by (simp add: keys m)
  have ok: "list_all (\<lambda>k. attribute k \<or> plain_key L k) (map fst ?updates)"
    unfolding keys using assms(3) by (rule data_keys_attributes)
  have nn: "\<not> null_refused ?updates"
    using tx by (rule all_text_not_null)
  have "l0 \<in> set (locations d)"
    using assms(1) find_some_in by fastforce
  then have mem: "merged_record v L b l0 \<in> set (save (merged_record v L b l0) (locations d))"
    by (force simp: save_def merged_record_def)
  have "put_local_id v L u local_id b d =
      ((200, Loc (merged_record v L b l0)),
       d\<lparr>locations := save (merged_record v L b l0) (locations d)\<rparr>)"
    using assms(1) ok nn nouser
    by (simp add: put_local_id_def Let_def m row del: set_column.simps)
  with mem show ?thesis
    by simp
qed

text \<open>
  Updating only the name of the park: description, address, coordinates and owner are
  as before.
\<close>

theorem put_local_id_merges_witness:
  "put_local_id Part_000 sample_lib caller1 1 [(''name'', JStr ''Parque'')] sample_db =
     ((200, Loc (park\<lparr>l_name := JStr ''Parque''\<rparr>)),
      sample_db\<lparr>locations := [park\<lparr>l_name := JStr ''Parque''\<rparr>, gym]\<rparr>) \<and>
   l_description (park\<lparr>l_name := JStr ''Parque''\<rparr>) = l_description park \<and>
   l_address (park\<lparr>l_name := JStr ''Parque''\<rparr>) = l_address park \<and>
   l_coordinates (park\<lparr>l_name := JStr ''Parque''\<rparr>) = l_coordinates park \<and>
   l_userId (park\<lparr>l_name := JStr ''Parque''\<rparr>) = l_userId park \<and>
   l_name park \<noteq> JStr ''Parque''"
proof -
  let ?b = "[(''name'', JStr ''Parque'')]"
  have m: "merged_record Part_000 sample_lib ?b park = park\<lparr>l_name := JStr ''Parque''\<rparr>"
    by (simp add: merged_record_def merged_def jget_def as_read_def sanitize_def
        sample_lib_def park_def)
  have h1: "find (owned caller1 1) (locations sample_db) = Some park"
    by (simp add: sample_db_def owned_def park_def caller1_def)
  have h2: "distinct (map fst ?b)"
    by simp
  have h3: "set (map fst ?b) \<subseteq> {''name'', ''description'', ''address'', ''coordinates''}"
    by simp
  have h4: "all_text ?b"
    by (simp add: all_text_iff)
  have s: "save (park\<lparr>l_name := JStr ''Parque''\<rparr>) (locations sample_db) =
      [park\<lparr>l_name := JStr ''Parque''\<rparr>, gym]"
    by (simp add: save_def sample_db_def park_def gym_def)
  have r: "put_local_id Part_000 sample_lib caller1 1 ?b sample_db =
      ((200, Loc (park\<lparr>l_name := JStr ''Parque''\<rparr>)),
       sample_db\<lparr>locations := [park\<lparr>l_name := JStr ''Parque''\<rparr>, gym]\<rparr>)"
    using put_local_id_merges [OF h1 h2 h3 h4, where v = Part_000 and L = sample_lib]
    unfolding m s by simp
  show ?thesis
    using r by (simp add: park_def)
qed

subsection \<open>Coordinates at creation\<close>

lemma number_text_5: "number_text 5 = ''5''"
  by (simp add: number_text_def decimal.simps digit_def)

text \<open>
  C10, as stated, fails: coordinates is a \<^verbatim>\<open>DataTypes.STRING\<close> column, and a value that
  is no string is not kept verbatim. \<^verbatim>\<open>src/index.js\<close> creates the location with the
  text \<^verbatim>\<open>'5'\<close> for the number 5.
\<close>

theorem post_local_index_number_as_text:
  "jget five_body ''coordinates'' = Some (JNum 5) \<and>
   post_local_index sample_lib caller1 five_body sample_db =
     ((201, Loc \<lparr>l_id = 3, l_name = JStr ''Park'', l_description = JStr ''desc'',
                 l_address = JStr ''Central Park, NY'', l_coordinates = JStr ''5'',
                 l_userId = JNum 1\<rparr>),
      sample_db\<lparr>locations := [park, gym,
                    \<lparr>l_id = 3, l_name = JStr ''Park'', l_description = JStr ''desc'',
                      l_address = JStr ''Central Park, NY'', l_coordinates = JStr ''5'',
                      l_userId = JNum 1\<rparr>],
                 location_seq := 3\<rparr>) \<and>
   JStr ''5'' \<noteq> JNum 5"
  by (simp add: post_local_index_def Location_create_def notNull_def attribute_def column_def
      as_STRING_def references_user_def number_text_5 jget_def or_null_def five_body_def
      sample_db_def maria_def joao_def ana_def caller1_def)

text \<open>
  C10, amended. In \<^verbatim>\<open>src/index.js\<close>, when the caller's row of Users exists and name,
  description and address are given as strings, the location is created with the
  caller as owner and with the coordinates of the body in the form the column gives
  them: a string as it is, null (or no coordinates at all) as null, an integer that
  JavaScript holds exactly as its decimal text. In part_000 the new location has no
  coordinates, whatever the body holds: when the request passes the validation of the
  route and the caller's row exists, and on every request answered with 201.
\<close>

theorem post_local_coordinates:
  "(c_id u \<in> u_id ` set (users d) \<and> jget b ''name'' = Some (JStr n) \<and>
    jget b ''description'' = Some (JStr de) \<and> jget b ''address'' = Some (JStr a) \<and>
    as_STRING L (or_null (jget b ''coordinates'')) = Some c \<longrightarrow>
      post_local_index L u b d =
        ((201, Loc \<lparr>l_id = Suc (location_seq d), l_name = JStr n, l_description = JStr de,
                    l_address = JStr a, l_coordinates = c, l_userId = JNum (int (c_id u))\<rparr>),
         d\<lparr>locations := locations d @
              [\<lparr>l_id = Suc (location_seq d), l_name = JStr n, l_description = JStr de,
                l_address = JStr a, l_coordinates = c, l_userId = JNum (int (c_id u))\<rparr>],
            location_seq := Suc (location_seq d)\<rparr>)) \<and>
   as_STRING L (JStr s) = Some (JStr s) \<and>
   as_STRING L JNull = Some JNull \<and>
   (- 9007199254740991 \<le> i \<and> i \<le> 9007199254740991 \<longrightarrow>
      as_STRING L (JNum i) = Some (JStr (number_text i))) \<and>
   (c_id u \<in> u_id ` set (users d) \<and> local_checks b = [] \<and> jget b ''name'' = Some (JStr n) \<and>
    jget b ''description'' = Some (JStr de) \<and> jget b ''address'' = Some (JStr a) \<longrightarrow>
      post_local_part000 L u b d =
        ((201, Loc \<lparr>l_id = Suc (location_seq d), l_name = JStr (trim_escape L n),
                    l_description = JStr (trim_escape L de),
                    l_address = JStr (trim_escape L a),
                    l_coordinates = JNull, l_userId = JNum (int (c_id u))\<rparr>),
         d\<lparr>locations := locations d @
              [\<lparr>l_id = Suc (location_seq d), l_name = JStr (trim_escape L n),
                l_description = JStr (trim_escape L de),
                l_address = JStr (trim_escape L a),
                l_coordinates = JNull, l_userId = JNum (int (c_id u))\<rparr>],
            location_seq := Suc (location_seq d)\<rparr>)) \<and>
   (post_local_part000 L u b d = ((201, Loc l), d') \<longrightarrow>
      l_coordinates l = JNull \<and> locations d' = locations d @ [l])"
proof -
  have fk: "references_user d (JNum (int (c_id u)))" if "c_id u \<in> u_id ` set (users d)"
    using that by (simp add: references_user_def)
  have index: "post_local_index L u b d =
        ((201, Loc \<lparr>l_id = Suc (location_seq d), l_name = JStr n, l_description = JStr de,
                    l_address = JStr a, l_coordinates = c, l_userId = JNum (int (c_id u))\<rparr>),
         d\<lparr>locations := locations d @
              [\<lparr>l_id = Suc (location_seq d), l_name = JStr n, l_description = JStr de,
                l_address = JStr a, l_coordinates = c, l_userId = JNum (int (c_id u))\<rparr>],
            location_seq := Suc (location_seq d)\<rparr>)"
    if "c_id u \<in> u_id ` set (users d) \<and> jget b ''name'' = Some (JStr n) \<and>
        jget b ''description'' = Some (JStr de) \<and> jget b ''address'' = Some (JStr a) \<and>
        as_STRING L (or_null (jget b ''coordinates'')) = Some c"
    using that fk
    by (simp add: post_local_index_def Location_create_def notNull_def attribute_def
        column_def as_STRING_def or_null_def)
  have casts: "as_STRING L (JStr s) = Some (JStr s) \<and> as_STRING L JNull = Some JNull \<and>
      (- 9007199254740991 \<le> i \<and> i \<le> 9007199254740991 \<longrightarrow>
         as_STRING L (JNum i) = Some (JStr (number_text i)))"
    by (simp add: as_STRING_def)
  have part: "post_local_part000 L u b d =
        ((201, Loc \<lparr>l_id = Suc (location_seq d), l_name = JStr (trim_escape L n),
                    l_description = JStr (trim_escape L de),
                    l_address = JStr (trim_escape L a),
                    l_coordinates = JNull, l_userId = JNum (int (c_id u))\<rparr>),
         d\<lparr>locations := locations d @
              [\<lparr>l_id = Suc (location_seq d), l_name = JStr (trim_escape L n),
                l_description = JStr (trim_escape L de),
                l_address = JStr (trim_escape L a),
                l_coordinates = JNull, l_userId = JNum (int (c_id u))\<rparr>],
            location_seq := Suc (location_seq d)\<rparr>)"
    if "c_id u \<in> u_id ` set (users d) \<and> local_checks b = [] \<and>
        jget b ''name'' = Some (JStr n) \<and> jget b ''description'' = Some (JStr de) \<and>
        jget b ''address'' = Some (JStr a)"
    using that fk
    by (simp add: post_local_part000_def Location_create_def notNull_def attribute_def
        column_def as_STRING_def or_null_def jget_sanitized as_read_def sanitize_def Let_def)
  have any: "l_coordinates l = JNull \<and> locations d' = locations d @ [l]"
    if "post_local_part000 L u b d = ((201, Loc l), d')"
    using that
    by (auto simp: post_local_part000_def Location_create_def attribute_def column_def
        as_STRING_def Let_def split: if_splits option.splits)
  from index casts part any show ?thesis
    by blast
qed

text \<open>
  The same body, with coordinates "0,0", sent to both versions by caller 1.
\<close>

theorem post_local_coordinates_witness:
  "post_local_index sample_lib caller1 park_body sample_db =
     ((201, Loc \<lparr>l_id = 3, l_name = JStr ''Park'', l_description = JStr ''desc'',
                 l_address = JStr ''Central Park, NY'', l_coordinates = JStr ''0,0'',
                 l_userId = JNum 1\<rparr>),
      sample_db\<lparr>locations := [park, gym,
                    \<lparr>l_id = 3, l_name = JStr ''Park'', l_description = JStr ''desc'',
                      l_address = JStr ''Central Park, NY'', l_coordinates = JStr ''0,0'',
                      l_userId = JNum 1\<rparr>],
                 location_seq := 3\<rparr>) \<and>
   post_local_part000 sample_lib caller1 park_body sample_db =
     ((201, Loc \<lparr>l_id = 3, l_name = JStr ''Park'', l_description = JStr ''desc'',
                 l_address = JStr ''Central Park, NY'', l_coordinates = JNull,
                 l_userId = JNum 1\<rparr>),
      sample_db\<lparr>locations := [park, gym,
                    \<lparr>l_id = 3, l_name = JStr ''Park'', l_description = JStr ''desc'',
                      l_address = JStr ''Central Park, NY'', l_coordinates = JNull,
                      l_userId = JNum 1\<rparr>],
                 location_seq := 3\<rparr>) \<and>
   as_STRING sample_lib (JNum 5) = Some (JStr ''5'')"
proof -
  have row: "c_id caller1 \<in> u_id ` set (users sample_db)"
    by (simp add: sample_db_def maria_def joao_def ana_def caller1_def)
  have body: "jget park_body ''name'' = Some (JStr ''Park'') \<and>
      jget park_body ''description'' = Some (JStr ''desc'') \<and>
      jget park_body ''address'' = Some (JStr ''Central Park, NY'')"
    by (simp add: jget_def park_body_def)
  have coords: "as_STRING sample_lib (or_null (jget park_body ''coordinates'')) = Some (JStr ''0,0'')"
    by (simp add: as_STRING_def or_null_def jget_def park_body_def)
  have checks: "local_checks park_body = []"
    by (simp add: local_checks_def text_check_def is_string_def blank_def jget_def
        park_body_def)
  have range: "- 9007199254740991 \<le> (5::int) \<and> (5::int) \<le> 9007199254740991"
    by simp
  note T = post_local_coordinates [where L = sample_lib and u = caller1 and b = park_body
      and d = sample_db and n = "''Park''" and de = "''desc''" and a = "''Central Park, NY''"
      and c = "JStr ''0,0''" and i = 5]
  have i: "post_local_index sample_lib caller1 park_body sample_db =
      ((201, Loc \<lparr>l_id = Suc (location_seq sample_db), l_name = JStr ''Park'',
                  l_description = JStr ''desc'', l_address = JStr ''Central Park, NY'',
                  l_coordinates = JStr ''0,0'', l_userId = JNum (int (c_id caller1))\<rparr>),
       sample_db\<lparr>locations := locations sample_db @
            [\<lparr>l_id = Suc (location_seq sample_db), l_name = JStr ''Park'',
              l_description = JStr ''desc'', l_address = JStr ''Central Park, NY'',
              l_coordinates = JStr ''0,0'', l_userId = JNum (int (c_id caller1))\<rparr>],
          location_seq := Suc (location_seq sample_db)\<rparr>)"
    using T row body coords by blast
  have p: "post_local_part000 sample_lib caller1 park_body sample_db =
      ((201, Loc \<lparr>l_id = Suc (location_seq sample_db),
                  l_name = JStr (trim_escape sample_lib ''Park''),
                  l_description = JStr (trim_escape sample_lib ''desc''),
                  l_address = JStr (trim_escape sample_lib ''Central Park, NY''),
                  l_coordinates = JNull, l_userId = JNum (int (c_id caller1))\<rparr>),
       sample_db\<lparr>locations := locations sample_db @
            [\<lparr>l_id = Suc (location_seq sample_db),
              l_name = JStr (trim_escape sample_lib ''Park''),
              l_description = JStr (trim_escape sample_lib ''desc''),
              l_address = JStr (trim_escape sample_lib ''Central Park, NY''),
              l_coordinates = JNull, l_userId = JNum (int (c_id caller1))\<rparr>],
          location_seq := Suc (location_seq sample_db)\<rparr>)"
    using T row body checks by blast
  have five: "as_STRING sample_lib (JNum 5) = Some (JStr (number_text 5))"
    using T range by blast
  show ?thesis
    unfolding i p five
    by (simp add: number_text_5 sample_db_def caller1_def sample_lib_def)
qed

subsection \<open>Failed logins\<close>

text \<open>
  C9, as stated, fails: on the sample store a login with an unknown email and a login
  with a known email and a wrong password get different responses, in both versions.
\<close>

theorem login_failures_distinguished:
  "post_login_index sample_lib 100 ''nobody@example.com'' ''senha123'' sample_db =
     ((400, Note K_error Usuario_nao_encontrado), sample_db) \<and>
   post_login_index sample_lib 100 ''maria@example.com'' ''senha124'' sample_db =
     ((400, Note K_error Senha_incorreta), sample_db) \<and>
   post_login_part000 sample_lib 100 ''nobody@example.com'' ''senha123'' sample_db =
     ((400, Note K_erro Usuario_nao_encontrado), sample_db) \<and>
   post_login_part000 sample_lib 100 ''maria@example.com'' ''senha124'' sample_db =
     ((400, Note K_erro Senha_incorreta), sample_db) \<and>
   fst (post_login_index sample_lib 100 ''nobody@example.com'' ''senha123'' sample_db) \<noteq>
   fst (post_login_index sample_lib 100 ''maria@example.com'' ''senha124'' sample_db) \<and>
   fst (post_login_part000 sample_lib 100 ''nobody@example.com'' ''senha123'' sample_db) \<noteq>
   fst (post_login_part000 sample_lib 100 ''maria@example.com'' ''senha124'' sample_db)"
  by (simp add: post_login_index_def post_login_part000_def login_checks_def sample_lib_def
      sample_db_def maria_def joao_def ana_def)

text \<open>
  C9, amended. A login for an email that no user has is answered with status 400 and the
  text "Usuario nao encontrado."; a login with a wrong password for an existing user is
  answered with status 400 and the text "Senha incorreta.". The status is the same, the
  texts differ, so the response tells whether the account exists. In part_000 this is
  the behaviour once the request has passed the validation of the route, and the email
  looked up is the normalized one.
\<close>

theorem login_failure_messages:
  "(email \<notin> u_email ` set (users d) \<longrightarrow>
      post_login_index L now email password d =
        ((400, Note K_error Usuario_nao_encontrado), d)) \<and>
   (find (\<lambda>x. u_email x = email) (users d) = Some user \<and>
    \<not> bcrypt_compare L password (u_password user) \<longrightarrow>
      post_login_index L now email password d = ((400, Note K_error Senha_incorreta), d)) \<and>
   (login_checks L email password = [] \<and>
    normalizeEmail L email \<notin> u_email ` set (users d) \<longrightarrow>
      post_login_part000 L now email password d =
        ((400, Note K_erro Usuario_nao_encontrado), d)) \<and>
   (login_checks L email password = [] \<and>
    find (\<lambda>x. u_email x = normalizeEmail L email) (users d) = Some user \<and>
    \<not> bcrypt_compare L password (u_password user) \<longrightarrow>
      post_login_part000 L now email password d = ((400, Note K_erro Senha_incorreta), d)) \<and>
   Note k Usuario_nao_encontrado \<noteq> Note k Senha_incorreta"
proof -
  have none: "find (\<lambda>x. u_email x = e) (users d) = None" if "e \<notin> u_email ` set (users d)" for e
    using that by (auto simp: find_none_iff)
  show ?thesis
    by (auto simp: post_login_index_def post_login_part000_def none Let_def)
qed

text \<open>
  The four cases on the sample store.
\<close>

theorem login_failure_messages_witness:
  "post_login_index sample_lib 100 ''nobody@example.com'' ''senha123'' sample_db =
     ((400, Note K_error Usuario_nao_encontrado), sample_db) \<and>
   post_login_index sample_lib 100 ''maria@example.com'' ''senha124'' sample_db =
     ((400, Note K_error Senha_incorreta), sample_db) \<and>
   post_login_part000 sample_lib 100 ''nobody@example.com'' ''senha123'' sample_db =
     ((400, Note K_erro Usuario_nao_encontrado), sample_db) \<and>
   post_login_part000 sample_lib 100 ''maria@example.com'' ''senha124'' sample_db =
     ((400, Note K_erro Senha_incorreta), sample_db)"
proof -
  have h1: "''nobody@example.com'' \<notin> u_email ` set (users sample_db)"
    by (simp add: sample_db_def maria_def joao_def ana_def)
  have h2: "find (\<lambda>x. u_email x = ''maria@example.com'') (users sample_db) = Some maria \<and>
      \<not> bcrypt_compare sample_lib ''senha124'' (u_password maria)"
    by (simp add: sample_db_def maria_def sample_lib_def)
  have h3: "login_checks sample_lib ''nobody@example.com'' ''senha123'' = [] \<and>
      normalizeEmail sample_lib ''nobody@example.com'' \<notin> u_email ` set (users sample_db)"
    by (simp add: login_checks_def sample_db_def maria_def joao_def ana_def sample_lib_def)
  have h4: "login_checks sample_lib ''maria@example.com'' ''senha124'' = [] \<and>
      find (\<lambda>x. u_email x = normalizeEmail sample_lib ''maria@example.com'') (users sample_db) =
        Some maria \<and>
      \<not> bcrypt_compare sample_lib ''senha124'' (u_password maria)"
    by (simp add: login_checks_def sample_db_def maria_def sample_lib_def)
  show ?thesis
    using h1 h2 h3 h4
      login_failure_messages [of "''nobody@example.com''" sample_db sample_lib 100 "''senha123''"]
      login_failure_messages [of "''maria@example.com''" sample_db sample_lib 100 "''senha124''" maria]
    by blast
qed

subsection \<open>Registration and login\<close>

text \<open>
  C5. A registration followed by a login with the same credentials is meant to succeed.
  In part_000 the registration accepts a password of six characters and the login route
  rejects every password shorter than eight: the user registered here gets 201 and a
  token, and the login with the same email and password is answered 400 by the
  validation of the route. The login of \<^verbatim>\<open>src/index.js\<close>, which has no such check, accepts
  the same credentials.
\<close>

theorem registered_password_rejected_at_login:
  "length (b_password maria_body) = 6 \<and>
   post_usuario_part000 sample_lib 100 maria_body empty_db =
     ((201, User_token (maria\<lparr>u_password := ''#abc123''\<rparr>) ''forever''),
      empty_db\<lparr>users := [maria\<lparr>u_password := ''#abc123''\<rparr>], user_seq := 1\<rparr>) \<and>
   post_login_part000 sample_lib 200 (b_email maria_body) (b_password maria_body)
       (empty_db\<lparr>users := [maria\<lparr>u_password := ''#abc123''\<rparr>], user_seq := 1\<rparr>) =
     ((400, Errors [(''password'', ''Invalid value'')]),
      empty_db\<lparr>users := [maria\<lparr>u_password := ''#abc123''\<rparr>], user_seq := 1\<rparr>) \<and>
   post_login_index sample_lib 200 (b_email maria_body) (b_password maria_body)
       (empty_db\<lparr>users := [maria\<lparr>u_password := ''#abc123''\<rparr>], user_seq := 1\<rparr>) =
     ((200, User_token (maria\<lparr>u_password := ''#abc123''\<rparr>) ''forever''),
      empty_db\<lparr>users := [maria\<lparr>u_password := ''#abc123''\<rparr>], user_seq := 1\<rparr>)"
  by (simp add: post_usuario_part000_def usuario_checks_def usuario_try_def
      post_login_part000_def login_checks_def post_login_index_def jwt_sign_def
      sample_lib_def maria_body_def maria_def empty_db_def Let_def)

text \<open>
  In general: no password shorter than eight characters passes the login of part_000.
\<close>

lemma short_password_never_logs_in:
  "length password < 8 \<Longrightarrow>
   \<exists>es. post_login_part000 L now email password d = ((400, Errors es), d) \<and>
        (''password'', ''Invalid value'') \<in> set es"
  by (simp add: post_login_part000_def login_checks_def Let_def)

text \<open>
  C6, as stated, fails on \<^verbatim>\<open>src/index.js\<close>, which has no validation chain: a
  registration whose password has three characters, and whose other fields are valid,
  is stored (the password as its hash) and answered 201.
\<close>

theorem post_usuario_index_skips_validation:
  "length (b_password weak_body) < 6 \<and>
   post_usuario_index sample_lib 100 weak_body empty_db =
     ((201, User_token (maria\<lparr>u_password := ''#abc''\<rparr>) ''forever''),
      empty_db\<lparr>users := [maria\<lparr>u_password := ''#abc''\<rparr>], user_seq := 1\<rparr>)"
  by (simp add: post_usuario_index_def usuario_try_def jwt_sign_def sample_lib_def
      weak_body_def maria_def empty_db_def Let_def)

text \<open>
  Whatever \<^verbatim>\<open>User.create\<close> does with a record, \<^verbatim>\<open>src/index.js\<close> never answers with a
  list of offending fields.
\<close>

lemma post_usuario_index_never_lists_fields:
  "fst (post_usuario_index L now b d) \<noteq> (400, Errors es)"
  by (simp add: post_usuario_index_def usuario_try_def Let_def split: option.splits)

text \<open>
  C6, amended: in part_000 the rules on name (not empty), gender (M or F), cpf (exactly
  11 characters), address (not empty), email (accepted by \<^verbatim>\<open>isEmail\<close>) and password (at
  least 6 characters) are checked before anything else. When one of them is broken the
  answer is 400 with the list of errors and the store is untouched, and each of these
  six fields is in the list exactly when its rule is broken. \<^verbatim>\<open>src/index.js\<close> has no such
  validation and never answers with a list of fields. Nothing is said here about the
  check of the birthdate.
\<close>

theorem post_usuario_part000_validates:
  "(b_name b = '''' \<or> (b_gender b \<noteq> ''M'' \<and> b_gender b \<noteq> ''F'') \<or> length (b_cpf b) \<noteq> 11 \<or>
    b_address b = '''' \<or> \<not> isEmail L (b_email b) \<or> length (b_password b) < 6 \<longrightarrow>
      post_usuario_part000 L now b d = ((400, Errors (usuario_checks L b)), d)) \<and>
   (''name'' \<in> fst ` set (usuario_checks L b)) = (b_name b = '''') \<and>
   (''gender'' \<in> fst ` set (usuario_checks L b)) = (b_gender b \<noteq> ''M'' \<and> b_gender b \<noteq> ''F'') \<and>
   (''cpf'' \<in> fst ` set (usuario_checks L b)) = (length (b_cpf b) \<noteq> 11) \<and>
   (''address'' \<in> fst ` set (usuario_checks L b)) = (b_address b = '''') \<and>
   (''email'' \<in> fst ` set (usuario_checks L b)) = (\<not> isEmail L (b_email b)) \<and>
   (''password'' \<in> fst ` set (usuario_checks L b)) = (length (b_password b) < 6) \<and>
   fst (post_usuario_index L now b d) \<noteq> (400, Errors es)"
proof -
  have index: "fst (post_usuario_index L now b d) \<noteq> (400, Errors es)"
    by (rule post_usuario_index_never_lists_fields)
  have f1: "(''name'' \<in> fst ` set (usuario_checks L b)) = (b_name b = '''')"
    by (auto simp add: usuario_checks_def)
  have f2: "(''gender'' \<in> fst ` set (usuario_checks L b)) = (b_gender b \<noteq> ''M'' \<and> b_gender b \<noteq> ''F'')"
    by (auto simp add: usuario_checks_def)
  have f3: "(''cpf'' \<in> fst ` set (usuario_checks L b)) = (length (b_cpf b) \<noteq> 11)"
    by (auto simp add: usuario_checks_def)
  have f4: "(''address'' \<in> fst ` set (usuario_checks L b)) = (b_address b = '''')"
    by (auto simp add: usuario_checks_def)
  have f5: "(''email'' \<in> fst ` set (usuario_checks L b)) = (\<not> isEmail L (b_email b))"
    by (auto simp add: usuario_checks_def)
  have f6: "(''password'' \<in> fst ` set (usuario_checks L b)) = (length (b_password b) < 6)"
    by (auto simp add: usuario_checks_def)
  have resp: "post_usuario_part000 L now b d = ((400, Errors (usuario_checks L b)), d)"
    if "b_name b = '''' \<or> (b_gender b \<noteq> ''M'' \<and> b_gender b \<noteq> ''F'') \<or> length (b_cpf b) \<noteq> 11 \<or>
        b_address b = '''' \<or> \<not> isEmail L (b_email b) \<or> length (b_password b) < 6"
  proof -
    from that have "usuario_checks L b \<noteq> []"
      by (auto simp: usuario_checks_def)
    then show ?thesis
      by (simp add: post_usuario_part000_def Let_def)
  qed
  from resp f1 f2 f3 f4 f5 f6 index show ?thesis
    by blast
qed

text \<open>
  The registration that breaks the six rules, and the one whose password is too short.
\<close>

theorem post_usuario_part000_validates_witness:
  "post_usuario_part000 sample_lib 100 bad_body sample_db =
     ((400, Errors
         [(''name'', ''Name is required.''), (''gender'', ''Gender must be either M or F.''),
          (''cpf'', ''CPF must be 11 characters long.''), (''address'', ''Address is required.''),
          (''email'', ''Email is invalid.''),
          (''password'', ''Password must be at least 6 characters long.'')]), sample_db) \<and>
   post_usuario_part000 sample_lib 100 weak_body empty_db =
     ((400, Errors [(''password'', ''Password must be at least 6 characters long.'')]),
      empty_db)"
proof -
  have c: "usuario_checks sample_lib bad_body =
     [(''name'', ''Name is required.''), (''gender'', ''Gender must be either M or F.''),
      (''cpf'', ''CPF must be 11 characters long.''), (''address'', ''Address is required.''),
      (''email'', ''Email is invalid.''),
      (''password'', ''Password must be at least 6 characters long.'')]"
    by (simp add: usuario_checks_def sample_lib_def bad_body_def)
  have w: "usuario_checks sample_lib weak_body =
     [(''password'', ''Password must be at least 6 characters long.'')]"
    by (simp add: usuario_checks_def sample_lib_def weak_body_def)
  have h1: "b_name bad_body = ''''"
    by (simp add: bad_body_def)
  have h2: "length (b_password weak_body) < 6"
    by (simp add: weak_body_def)
  have r1: "post_usuario_part000 sample_lib 100 bad_body sample_db =
      ((400, Errors (usuario_checks sample_lib bad_body)), sample_db)"
    using h1 post_usuario_part000_validates [where L = sample_lib and b = bad_body
        and now = 100 and d = sample_db]
    by blast
  have r2: "post_usuario_part000 sample_lib 100 weak_body empty_db =
      ((400, Errors (usuario_checks sample_lib weak_body)), empty_db)"
    using h2 post_usuario_part000_validates [where L = sample_lib and b = weak_body
        and now = 100 and d = empty_db]
    by blast
  show ?thesis
    unfolding r1 r2 c w by simp
qed

subsection \<open>Expiry of tokens\<close>

text \<open>
  C7, as stated, fails on \<^verbatim>\<open>src/index.js\<close>: its login signs without options, so the token
  of a successful login carries no expiry and still verifies an hour later and long
  after.
\<close>

theorem post_login_index_token_never_expires:
  "post_login_index sample_lib 100 ''maria@example.com'' ''senha123'' sample_db =
     ((200, User_token maria ''forever''), sample_db) \<and>
   jwt_sign sample_lib 100 (u_id maria) None = ''forever'' \<and>
   jwt_decode sample_lib ''forever'' = Some \<lparr>c_id = 1, c_iat = 100, c_exp = None\<rparr> \<and>
   jwt_verify sample_lib (100 + 3600) ''forever'' = Some \<lparr>c_id = 1, c_iat = 100, c_exp = None\<rparr> \<and>
   jwt_verify sample_lib (100 + 1000000) ''forever'' =
     Some \<lparr>c_id = 1, c_iat = 100, c_exp = None\<rparr>"
  by (simp add: post_login_index_def jwt_sign_def jwt_verify_def sample_lib_def sample_db_def
      maria_def)

lemma jwt_verify_expiring:
  "jwt_decode L t = Some \<lparr>c_id = i, c_iat = now, c_exp = Some e\<rparr> \<Longrightarrow>
   jwt_verify L at t = (if e \<le> at then None else Some \<lparr>c_id = i, c_iat = now, c_exp = Some e\<rparr>)"
  by (simp add: jwt_verify_def)

lemma jwt_verify_unbounded:
  "jwt_decode L t = Some \<lparr>c_id = i, c_iat = now, c_exp = None\<rparr> \<Longrightarrow>
   jwt_verify L at t = Some \<lparr>c_id = i, c_iat = now, c_exp = None\<rparr>"
  by (simp add: jwt_verify_def)

lemma usuario_try_token:
  "usuario_try v L now b d = ((201, User_token user t), d') \<Longrightarrow>
   t = jwt_encode L \<lparr>c_id = u_id user, c_iat = now, c_exp = None\<rparr>"
  by (auto simp: usuario_try_def jwt_sign_def Let_def split: option.splits if_splits)

text \<open>
  C7, amended: the token of a successful login in part_000 binds the user's identifier
  and expires 3600 seconds after it was issued: where the signature primitive gives the
  payload back, verification succeeds before that instant and fails from it on. The
  token of a successful login in \<^verbatim>\<open>src/index.js\<close> and the token of a successful
  registration in either version bind the user's identifier and carry no expiry:
  verification succeeds at every time.
\<close>

theorem token_expiry_by_route:
  "(post_login_part000 L now email password d = ((200, User_token user t), d') \<longrightarrow>
      t = jwt_encode L \<lparr>c_id = u_id user, c_iat = now, c_exp = Some (now + 3600)\<rparr> \<and>
      (jwt_decode L t = Some \<lparr>c_id = u_id user, c_iat = now, c_exp = Some (now + 3600)\<rparr> \<longrightarrow>
         jwt_verify L at t =
           (if now + 3600 \<le> at then None
            else Some \<lparr>c_id = u_id user, c_iat = now, c_exp = Some (now + 3600)\<rparr>))) \<and>
   (post_login_index L now email password d = ((200, User_token user t), d') \<or>
    post_usuario_index L now b d = ((201, User_token user t), d') \<or>
    post_usuario_part000 L now b d = ((201, User_token user t), d') \<longrightarrow>
      t = jwt_encode L \<lparr>c_id = u_id user, c_iat = now, c_exp = None\<rparr> \<and>
      (jwt_decode L t = Some \<lparr>c_id = u_id user, c_iat = now, c_exp = None\<rparr> \<longrightarrow>
         jwt_verify L at t = Some \<lparr>c_id = u_id user, c_iat = now, c_exp = None\<rparr>))"
proof -
  have hour: "t = jwt_encode L \<lparr>c_id = u_id user, c_iat = now, c_exp = Some (now + 3600)\<rparr>"
    if "post_login_part000 L now email password d = ((200, User_token user t), d')"
    using that
    by (auto simp: post_login_part000_def jwt_sign_def Let_def split: option.splits if_splits)
  have login: "t = jwt_encode L \<lparr>c_id = u_id user, c_iat = now, c_exp = None\<rparr>"
    if "post_login_index L now email password d = ((200, User_token user t), d')"
    using that
    by (auto simp: post_login_index_def jwt_sign_def split: option.splits if_splits)
  have reg1: "t = jwt_encode L \<lparr>c_id = u_id user, c_iat = now, c_exp = None\<rparr>"
    if "post_usuario_index L now b d = ((201, User_token user t), d')"
    using that usuario_try_token by (simp add: post_usuario_index_def)
  have reg2: "t = jwt_encode L \<lparr>c_id = u_id user, c_iat = now, c_exp = None\<rparr>"
    if "post_usuario_part000 L now b d = ((201, User_token user t), d')"
    using that usuario_try_token
    by (auto simp: post_usuario_part000_def Let_def split: if_splits)
  from hour login reg1 reg2 jwt_verify_expiring [of L t "u_id user" now "now + 3600" at]
    jwt_verify_unbounded [of L t "u_id user" now at]
  show ?thesis
    by blast
qed

text \<open>
  Maria logs in at time 100 (part_000): the token verifies at 3699 and not at 3700. The
  token of a registration at time 100 verifies at 3700.
\<close>

theorem token_expiry_by_route_witness:
  "post_login_part000 sample_lib 100 ''maria@example.com'' ''senha123'' sample_db =
     ((200, User_token maria ''hour''), sample_db) \<and>
   jwt_verify sample_lib 3699 ''hour'' = Some \<lparr>c_id = 1, c_iat = 100, c_exp = Some 3700\<rparr> \<and>
   jwt_verify sample_lib 3700 ''hour'' = None \<and>
   post_usuario_part000 sample_lib 100 maria_body empty_db =
     ((201, User_token (maria\<lparr>u_password := ''#abc123''\<rparr>) ''forever''),
      empty_db\<lparr>users := [maria\<lparr>u_password := ''#abc123''\<rparr>], user_seq := 1\<rparr>) \<and>
   jwt_verify sample_lib 3700 ''forever'' = Some \<lparr>c_id = 1, c_iat = 100, c_exp = None\<rparr>"
proof -
  have l: "post_login_part000 sample_lib 100 ''maria@example.com'' ''senha123'' sample_db =
      ((200, User_token maria ''hour''), sample_db)"
    by (simp add: post_login_part000_def login_checks_def jwt_sign_def sample_lib_def
        sample_db_def maria_def Let_def)
  have r: "post_usuario_part000 sample_lib 100 maria_body empty_db =
      ((201, User_token (maria\<lparr>u_password := ''#abc123''\<rparr>) ''forever''),
       empty_db\<lparr>users := [maria\<lparr>u_password := ''#abc123''\<rparr>], user_seq := 1\<rparr>)"
    by (simp add: post_usuario_part000_def usuario_checks_def usuario_try_def jwt_sign_def
        sample_lib_def maria_body_def maria_def empty_db_def Let_def)
  have dh: "jwt_decode sample_lib ''hour'' =
      Some \<lparr>c_id = u_id maria, c_iat = 100, c_exp = Some (100 + 3600)\<rparr>"
    by (simp add: sample_lib_def maria_def)
  have df: "jwt_decode sample_lib ''forever'' =
      Some \<lparr>c_id = u_id (maria\<lparr>u_password := ''#abc123''\<rparr>), c_iat = 100, c_exp = None\<rparr>"
    by (simp add: sample_lib_def maria_def)
  have i: "u_id maria = 1"
    by (simp add: maria_def)
  have v1: "jwt_verify sample_lib 3699 ''hour'' =
      (if 100 + 3600 \<le> (3699::nat) then None
       else Some \<lparr>c_id = u_id maria, c_iat = 100, c_exp = Some (100 + 3600)\<rparr>)"
    using l dh
      token_expiry_by_route [where L = sample_lib and now = 100 and email = "''maria@example.com''"
        and password = "''senha123''" and d = sample_db and user = maria and t = "''hour''"
        and d' = sample_db and at = 3699 and b = maria_body]
    by blast
  have v2: "jwt_verify sample_lib 3700 ''hour'' =
      (if 100 + 3600 \<le> (3700::nat) then None
       else Some \<lparr>c_id = u_id maria, c_iat = 100, c_exp = Some (100 + 3600)\<rparr>)"
    using l dh
      token_expiry_by_route [where L = sample_lib and now = 100 and email = "''maria@example.com''"
        and password = "''senha123''" and d = sample_db and user = maria and t = "''hour''"
        and d' = sample_db and at = 3700 and b = maria_body]
    by blast
  have v3: "jwt_verify sample_lib 3700 ''forever'' =
      Some \<lparr>c_id = u_id (maria\<lparr>u_password := ''#abc123''\<rparr>), c_iat = 100, c_exp = None\<rparr>"
    using r df
      token_expiry_by_route [where L = sample_lib and now = 100 and email = "''maria@example.com''"
        and password = "''abc123''" and b = maria_body and d = empty_db
        and user = "maria\<lparr>u_password := ''#abc123''\<rparr>" and t = "''forever''"
        and d' = "empty_db\<lparr>users := [maria\<lparr>u_password := ''#abc123''\<rparr>], user_seq := 1\<rparr>"
        and at = 3700]
    by blast
  show ?thesis
    using v1 v2 v3 by (simp add: l r i)
qed

subsection \<open>The model on other requests\<close>

text \<open>
  Requests outside the claims, on which the definitions can be compared with the code:
  a body without name, description and address gets five validation errors in
  part_000; an update that names an owner who is no user is answered 500; an update
  that sends the owner as the text \<^verbatim>\<open>'2'\<close> stores the integer 2 and answers with the
  text; an update that assigns a member of the instance is left to the ORM; a creation by
  a caller whose row of Users is gone is answered 500.
\<close>

lemma local_checks_empty_body:
  "local_checks [] =
     [(''name'', ''Invalid value''), (''name'', ''Invalid value''),
      (''description'', ''Invalid value''), (''description'', ''Invalid value''),
      (''address'', ''Invalid value'')]"
  by (simp add: local_checks_def text_check_def is_string_def blank_def jget_def)

lemma put_local_id_unknown_owner:
  "put_local_id v L caller1 1 [(''userId'', JNum 99)] sample_db =
     ((500, Note (err_key v) Erro_ao_atualizar_local), sample_db)"
  by (cases v)
    (simp_all add: put_local_id_def req_body_def sanitized_def owned_def attribute_def
      null_refused_def column_def as_INTEGER_def references_user_def sample_db_def park_def
      gym_def maria_def joao_def ana_def caller1_def Let_def)

lemma put_local_id_owner_as_text:
  "integer_cast L (JStr ''2'') = Value 2 \<Longrightarrow>
   put_local_id v L caller1 1 [(''userId'', JStr ''2'')] sample_db =
     ((200, Loc (park\<lparr>l_userId := JStr ''2''\<rparr>)),
      sample_db\<lparr>locations := [park\<lparr>l_userId := JNum 2\<rparr>, gym]\<rparr>)"
  by (cases v)
    (simp_all add: put_local_id_def req_body_def sanitized_def owned_def attribute_def
      null_refused_def column_def as_INTEGER_def of_cast_def references_user_def save_def
      sample_db_def park_def gym_def maria_def joao_def ana_def caller1_def Let_def)

lemma put_local_id_member:
  "\<not> plain_key L ''save'' \<Longrightarrow>
   put_local_id Index_js L caller1 1 [(''save'', JNum 1)] sample_db =
     other_member L park [(''save'', JNum 1)] sample_db"
  by (simp add: put_local_id_def req_body_def owned_def attribute_def sample_db_def park_def
      caller1_def Let_def)

lemma post_local_index_without_user_row:
  "c_id u \<notin> u_id ` set (users d) \<Longrightarrow>
   post_local_index L u park_body d = ((500, Note K_error Erro_ao_criar_local), d)"
  by (auto simp add: post_local_index_def Location_create_def notNull_def attribute_def
      column_def as_STRING_def references_user_def err_key_def jget_def or_null_def
      park_body_def)

end
